theory Spec2Isabelle
  imports Main "HOL-Library.Char_ord" "HOL-Library.List_Lexorder"
begin

section \<open>Timestamps: \<^verbatim>\<open>datetime.utcnow().isoformat() + "Z"\<close>\<close>

text \<open>
  Every timestamp the queue stores is the text
  \<^verbatim>\<open>datetime.utcnow().isoformat() + "Z"\<close>, kept in a TEXT column and compared by
  the store as text (byte by byte, a proper prefix first). A reading of the clock
  is a \<open>datetime\<close>: the number of microseconds since 0001-01-01T00:00:00, the
  least instant Python's \<^verbatim>\<open>datetime\<close> has. The functions below render it the way
  \<^verbatim>\<open>isoformat\<close> does: \<^verbatim>\<open>YYYY-MM-DDTHH:MM:SS.ffffff\<close>, and
  \<^verbatim>\<open>YYYY-MM-DDTHH:MM:SS\<close> when the microsecond field is zero.
\<close>

type_synonym datetime = nat

definition digit :: "nat \<Rightarrow> char" where
  "digit d = ''0123456789'' ! d"

fun dec :: "nat \<Rightarrow> string" where
  "dec n = (if n < 10 then [digit n] else dec (n div 10) @ [digit (n mod 10)])"

declare dec.simps [simp del]

text \<open>\<^verbatim>\<open>"%0wd"\<close>: at least \<open>w\<close> digits, zeros on the left, nothing cut off.\<close>

definition zfill :: "nat \<Rightarrow> nat \<Rightarrow> string" where
  "zfill w n = replicate (w - length (dec n)) (CHR ''0'') @ dec n"

definition DAYS_IN_MONTH :: "nat list" where
  "DAYS_IN_MONTH = [0, 31, 28, 31, 30, 31, 30, 31, 31, 30, 31, 30, 31]"

definition DAYS_BEFORE_MONTH :: "nat list" where
  "DAYS_BEFORE_MONTH = [0, 0, 31, 59, 90, 120, 151, 181, 212, 243, 273, 304, 334]"

text \<open>
  The standard library's conversion of a day number (days since 0001-01-01, that is
  the proleptic Gregorian ordinal less one) to year, month and day: cycles of 400,
  100, 4 and 1 years, then an estimate of the month that is corrected when it is one
  too large.
\<close>

definition ord2ymd :: "nat \<Rightarrow> nat \<times> nat \<times> nat" where
  "ord2ymd n0 =
     (let n400 = n0 div 146097; na = n0 mod 146097;
          n100 = na div 36524; nb = na mod 36524;
          n4 = nb div 1461; nc = nb mod 1461;
          n1 = nc div 365; n = nc mod 365;
          year = n400 * 400 + 1 + n100 * 100 + n4 * 4 + n1
      in if n1 = 4 \<or> n100 = 4 then (year - 1, 12, 31)
         else
           let leapyear = (n1 = 3 \<and> (n4 \<noteq> 24 \<or> n100 = 3));
               month = (n + 50) div 32;
               preceding = DAYS_BEFORE_MONTH ! month + (if month > 2 \<and> leapyear then 1 else 0)
           in if preceding > n
              then let month' = month - 1;
                       preceding' = preceding
                         - (DAYS_IN_MONTH ! month' + (if month' = 2 \<and> leapyear then 1 else 0))
                   in (year, month', n - preceding' + 1)
              else (year, month, n - preceding + 1))"

definition isoformat :: "datetime \<Rightarrow> string" where
  "isoformat t =
     (let us = t mod 1000000; secs = t div 1000000;
          ss = secs mod 60; mins = secs div 60;
          mm = mins mod 60; hours = mins div 60;
          hh = hours mod 24; days = hours div 24
      in case ord2ymd days of (y, m, d) \<Rightarrow>
           zfill 4 y @ ''-'' @ zfill 2 m @ ''-'' @ zfill 2 d @ ''T''
           @ zfill 2 hh @ '':'' @ zfill 2 mm @ '':'' @ zfill 2 ss
           @ (if us = 0 then [] else ''.'' @ zfill 6 us))"

text \<open>The text of a clock reading, as every function of the store builds it.\<close>

definition utc_text :: "datetime \<Rightarrow> string" where
  "utc_text t = isoformat t @ ''Z''"

text \<open>9999-12-31T23:59:59.999999, the greatest instant a \<^verbatim>\<open>datetime\<close> holds.\<close>

definition MAX_DATETIME :: datetime where
  "MAX_DATETIME = 3652059 * 86400 * 1000000 - 1"


section \<open>The job table (\<^verbatim>\<open>storage.py\<close>)\<close>

text \<open>
  The column \<^verbatim>\<open>state\<close> holds one of five literals. A row of the table
  \<^verbatim>\<open>jobs\<close> is a \<open>job\<close>; the nullable columns are options. The table is the
  list of its rows in insertion order, and \<^verbatim>\<open>id\<close> is its primary key.
\<close>

datatype job_state = Pending | Processing | Completed | Failed | Dead

record job =
  job_id :: string
  command :: string
  state :: job_state
  attempts :: nat
  max_retries :: int
  next_retry_at :: "string option"
  created_at :: string
  updated_at :: string
  completed_at :: "string option"
  error_message :: "string option"

type_synonym storage = "job list"

datatype error = IntegrityError | OverflowError

definition get_job :: "storage \<Rightarrow> string \<Rightarrow> job option" where
  "get_job s i = find (\<lambda>j. job_id j = i) s"

text \<open>
  \<^verbatim>\<open>INSERT\<close>: an integer bound to the statement must fit the store's 64-bit INTEGER
  (the binding raises \<^verbatim>\<open>OverflowError\<close> otherwise), and the primary key rejects an id
  the table has.
\<close>

definition create_job ::
  "storage \<Rightarrow> string \<Rightarrow> string \<Rightarrow> int \<Rightarrow> datetime \<Rightarrow> error + storage \<times> job option" where
  "create_job s i cmd mr t =
     (let now = utc_text t in
      if mr < - (2 ^ 63) \<or> 2 ^ 63 \<le> mr then Inl OverflowError
      else if i \<in> set (map job_id s) then Inl IntegrityError
      else
        let s' = s @ [\<lparr>job_id = i, command = cmd, state = Pending, attempts = 0,
                        max_retries = mr, next_retry_at = None, created_at = now,
                        updated_at = now, completed_at = None, error_message = None\<rparr>]
        in Inr (s', get_job s' i))"

text \<open>
  The keyword arguments of \<^verbatim>\<open>update_job\<close>: a column that is absent from the
  dictionary is \<open>None\<close>, a column set to NULL is \<open>Some None\<close>.
\<close>

record updates =
  u_id :: "string option"
  u_command :: "string option"
  u_state :: "job_state option"
  u_attempts :: "nat option"
  u_max_retries :: "int option"
  u_next_retry_at :: "string option option"
  u_created_at :: "string option"
  u_updated_at :: "string option"
  u_completed_at :: "string option option"
  u_error_message :: "string option option"

definition set_columns :: "updates \<Rightarrow> job \<Rightarrow> job" where
  "set_columns u j =
     \<lparr>job_id = (case u_id u of None \<Rightarrow> job_id j | Some v \<Rightarrow> v),
      command = (case u_command u of None \<Rightarrow> command j | Some v \<Rightarrow> v),
      state = (case u_state u of None \<Rightarrow> state j | Some v \<Rightarrow> v),
      attempts = (case u_attempts u of None \<Rightarrow> attempts j | Some v \<Rightarrow> v),
      max_retries = (case u_max_retries u of None \<Rightarrow> max_retries j | Some v \<Rightarrow> v),
      next_retry_at = (case u_next_retry_at u of None \<Rightarrow> next_retry_at j | Some v \<Rightarrow> v),
      created_at = (case u_created_at u of None \<Rightarrow> created_at j | Some v \<Rightarrow> v),
      updated_at = (case u_updated_at u of None \<Rightarrow> updated_at j | Some v \<Rightarrow> v),
      completed_at = (case u_completed_at u of None \<Rightarrow> completed_at j | Some v \<Rightarrow> v),
      error_message = (case u_error_message u of None \<Rightarrow> error_message j | Some v \<Rightarrow> v)\<rparr>"

text \<open>
  \<^verbatim>\<open>UPDATE jobs SET ... WHERE id = ?\<close>, with \<^verbatim>\<open>updated_at\<close> put into the
  dictionary first. The primary key rejects an update that would leave two rows
  with one id.
\<close>

definition update_job ::
  "storage \<Rightarrow> string \<Rightarrow> updates \<Rightarrow> datetime \<Rightarrow> error + storage \<times> job option" where
  "update_job s i u t =
     (let u' = u\<lparr>u_updated_at := Some (utc_text t)\<rparr>;
          s' = map (\<lambda>j. if job_id j = i then set_columns u' j else j) s
      in if distinct (map job_id s') then Inr (s', get_job s' i)
         else Inl IntegrityError)"

text \<open>
  \<^verbatim>\<open>(state = 'pending' OR state = 'failed') AND (next_retry_at IS NULL OR next_retry_at <= ?)\<close>:
  the comparison is the one of TEXT values.
\<close>

definition ready_where :: "string \<Rightarrow> job \<Rightarrow> bool" where
  "ready_where now j =
     ((state j = Pending \<or> state j = Failed) \<and>
      (case next_retry_at j of None \<Rightarrow> True | Some r \<Rightarrow> r \<le> now))"

text \<open>\<^verbatim>\<open>LIMIT ?\<close>: a negative limit is no limit.\<close>

definition sql_limit :: "int \<Rightarrow> 'a list \<Rightarrow> 'a list" where
  "sql_limit n xs = (if n < 0 then xs else take (nat n) xs)"

text \<open>
  \<^verbatim>\<open>ORDER BY created_at ASC\<close>. Among rows with equal \<^verbatim>\<open>created_at\<close> the store promises
  no order: they come in the order in which its query plan visits them (table order,
  or the order of an index such as the one on \<^verbatim>\<open>state\<close>). The plan is the argument
  \<open>plan\<close>, the rank at which a row is visited; the sort by \<^verbatim>\<open>created_at\<close> is stable, so
  every order among equal keys is the result for some plan.
\<close>

definition get_pending_jobs ::
  "storage \<Rightarrow> int \<Rightarrow> datetime \<Rightarrow> (job \<Rightarrow> nat) \<Rightarrow> job list" where
  "get_pending_jobs s limit t plan =
     (let now = utc_text t
      in sql_limit limit (sort_key created_at (sort_key plan (filter (ready_where now) s))))"

definition acquire_where :: "string \<Rightarrow> string \<Rightarrow> job \<Rightarrow> bool" where
  "acquire_where i now j = (job_id j = i \<and> ready_where now j)"

definition acquire_job :: "storage \<Rightarrow> string \<Rightarrow> datetime \<Rightarrow> storage \<times> bool" where
  "acquire_job s i t =
     (let now = utc_text t;
          s' = map (\<lambda>j. if acquire_where i now j then j\<lparr>state := Processing\<rparr> else j) s;
          rowcount = length (filter (acquire_where i now) s)
      in (s', rowcount > 0))"

definition reset_job_for_retry :: "storage \<Rightarrow> string \<Rightarrow> datetime \<Rightarrow> storage \<times> job option" where
  "reset_job_for_retry s i t =
     (let now = utc_text t;
          s' = map (\<lambda>j. if job_id j = i \<and> state j = Dead
                          then j\<lparr>state := Pending, attempts := 0, next_retry_at := None,
                                 error_message := None, updated_at := now\<rparr>
                          else j) s
      in (s', get_job s' i))"

section \<open>The job entity (\<^verbatim>\<open>job.py\<close>)\<close>

text \<open>
  What \<^verbatim>\<open>subprocess.run\<close> does with a command is the environment's choice: the
  process ends after some seconds with a return code and its two captured streams,
  or it never ends, or starting it raises.
\<close>

datatype run_result =
    Exits nat int string string
  | Runs_forever
  | Raises_FileNotFoundError
  | Raises string

datatype run_exception = TimeoutExpired | FileNotFoundError | Exception string

text \<open>
  \<open>None\<close> is a call that never returns. With a timeout the call raises
  \<^verbatim>\<open>TimeoutExpired\<close> unless the process ends within it.
\<close>

fun subprocess_run :: "run_result \<Rightarrow> int option \<Rightarrow> (run_exception + int \<times> string \<times> string) option" where
  "subprocess_run (Exits d rc out err) None = Some (Inr (rc, out, err))"
| "subprocess_run (Exits d rc out err) (Some t) =
     (if int d \<le> t then Some (Inr (rc, out, err)) else Some (Inl TimeoutExpired))"
| "subprocess_run Runs_forever None = None"
| "subprocess_run Runs_forever (Some t) = Some (Inl TimeoutExpired)"
| "subprocess_run Raises_FileNotFoundError timeout = Some (Inl FileNotFoundError)"
| "subprocess_run (Raises m) timeout = Some (Inl (Exception m))"

text \<open>
  The five \<^verbatim>\<open>return\<close> statements of \<^verbatim>\<open>execute\<close>, each with the pair
  \<^verbatim>\<open>(success, error_message)\<close> it returns.
\<close>

datatype outcome =
    Succeeded
  | Execution_failure string
  | Execution_timeout string
  | Command_not_found string
  | Execution_error string

fun success :: "outcome \<Rightarrow> bool" where
  "success Succeeded = True"
| "success _ = False"

fun error_msg :: "outcome \<Rightarrow> string option" where
  "error_msg Succeeded = None"
| "error_msg (Execution_failure m) = Some m"
| "error_msg (Execution_timeout m) = Some m"
| "error_msg (Command_not_found m) = Some m"
| "error_msg (Execution_error m) = Some m"

definition str_int :: "int \<Rightarrow> string" where
  "str_int n = (if n < 0 then ''-'' @ dec (nat (- n)) else dec (nat n))"

definition str_timeout :: "int option \<Rightarrow> string" where
  "str_timeout timeout = (case timeout of None \<Rightarrow> ''None'' | Some t \<Rightarrow> str_int t)"

definition execute :: "job \<Rightarrow> run_result \<Rightarrow> int option \<Rightarrow> outcome option" where
  "execute self b timeout =
     (case (if timeout \<noteq> None \<and> timeout \<noteq> Some 0
            then subprocess_run b timeout
            else subprocess_run b None) of
        None \<Rightarrow> None
      | Some (Inr (returncode, out, err)) \<Rightarrow>
          if returncode = 0 then Some Succeeded
          else Some (Execution_failure
                 (if err \<noteq> [] then err
                  else if out \<noteq> [] then out
                  else ''Command failed with exit code '' @ str_int returncode))
      | Some (Inl TimeoutExpired) \<Rightarrow>
          Some (Execution_timeout (''Command timed out after '' @ str_timeout timeout @ '' seconds''))
      | Some (Inl FileNotFoundError) \<Rightarrow>
          Some (Command_not_found (''Command not found: '' @ command self))
      | Some (Inl (Exception e)) \<Rightarrow> Some (Execution_error e))"

text \<open>
  \<^verbatim>\<open>timedelta(seconds=n)\<close> in microseconds, and \<^verbatim>\<open>datetime + timedelta\<close>; both
  raise \<^verbatim>\<open>OverflowError\<close> outside their ranges.
\<close>

definition timedelta_seconds :: "int \<Rightarrow> error + int" where
  "timedelta_seconds n =
     (if \<bar>n div 86400\<bar> > 999999999 then Inl OverflowError else Inr (n * 1000000))"

definition datetime_add :: "datetime \<Rightarrow> int \<Rightarrow> error + datetime" where
  "datetime_add t d =
     (let r = int t + d
      in if r < 0 \<or> int MAX_DATETIME < r then Inl OverflowError else Inr (nat r))"

text \<open>
  The configured \<^verbatim>\<open>backoff_base\<close> and the reading of the clock are arguments.
  The base is an integer, as the default 2 is.
\<close>

definition calculate_next_retry :: "job \<Rightarrow> int \<Rightarrow> datetime \<Rightarrow> error + string" where
  "calculate_next_retry self backoff_base t =
     (let delay_seconds = backoff_base ^ attempts self
      in case timedelta_seconds delay_seconds of
           Inl e \<Rightarrow> Inl e
         | Inr delta \<Rightarrow>
             (case datetime_add t delta of
                Inl e \<Rightarrow> Inl e
              | Inr next_retry \<Rightarrow> Inr (isoformat next_retry @ ''Z'')))"

definition should_retry :: "job \<Rightarrow> bool" where
  "should_retry self = (int (attempts self) < max_retries self)"

definition mark_for_retry :: "job \<Rightarrow> int \<Rightarrow> datetime \<Rightarrow> error + job" where
  "mark_for_retry self backoff_base t =
     (let self1 = self\<lparr>attempts := attempts self + 1\<rparr>
      in if should_retry self1
         then (case calculate_next_retry self1 backoff_base t of
                 Inl e \<Rightarrow> Inl e
               | Inr r \<Rightarrow> Inr (self1\<lparr>state := Failed, next_retry_at := Some r\<rparr>))
         else Inr (self1\<lparr>state := Dead, next_retry_at := None\<rparr>))"

definition mark_completed :: "job \<Rightarrow> datetime \<Rightarrow> job" where
  "mark_completed self t = self\<lparr>state := Completed, completed_at := Some (utc_text t)\<rparr>"

definition mark_failed :: "job \<Rightarrow> string option \<Rightarrow> int \<Rightarrow> datetime \<Rightarrow> error + job" where
  "mark_failed self msg backoff_base t =
     mark_for_retry (self\<lparr>error_message := msg\<rparr>) backoff_base t"

definition to_dict :: "job \<Rightarrow> updates" where
  "to_dict self =
     \<lparr>u_id = Some (job_id self), u_command = Some (command self),
      u_state = Some (state self), u_attempts = Some (attempts self),
      u_max_retries = Some (max_retries self),
      u_next_retry_at = Some (next_retry_at self),
      u_created_at = Some (created_at self), u_updated_at = Some (updated_at self),
      u_completed_at = Some (completed_at self),
      u_error_message = Some (error_message self)\<rparr>"

section \<open>The worker loop (\<^verbatim>\<open>worker.py\<close>)\<close>

text \<open>
  One pass through the body of the loop of \<^verbatim>\<open>_worker_process\<close>. It reads the clock
  four times: in \<^verbatim>\<open>get_pending_jobs\<close>, in \<^verbatim>\<open>acquire_job\<close>, when the job is marked
  and in \<^verbatim>\<open>update_job\<close>. The result says how the pass ended and what the table is
  then: nothing to do, the acquisition lost, the command still running, an
  exception caught by the loop, or the outcome written.
\<close>

datatype iteration =
    No_jobs storage
  | Not_acquired storage
  | Never_returns storage
  | Raised storage error
  | Recorded storage

definition record_outcome ::
  "storage \<Rightarrow> job \<Rightarrow> outcome \<Rightarrow> int \<Rightarrow> datetime \<Rightarrow> datetime \<Rightarrow> iteration" where
  "record_outcome s job_data out backoff_base tm tu =
     (if success out
      then (case update_job s (job_id job_data) (to_dict (mark_completed job_data tm)) tu of
              Inl e \<Rightarrow> Raised s e
            | Inr (s', r) \<Rightarrow> Recorded s')
      else (case mark_failed job_data (error_msg out) backoff_base tm of
              Inl e \<Rightarrow> Raised s e
            | Inr job \<Rightarrow>
                (case update_job s (job_id job_data) (to_dict job) tu of
                   Inl e \<Rightarrow> Raised s e
                 | Inr (s', r) \<Rightarrow> Recorded s')))"

definition worker_iteration ::
  "storage \<Rightarrow> run_result \<Rightarrow> int \<Rightarrow> datetime \<Rightarrow> datetime \<Rightarrow> datetime \<Rightarrow> datetime \<Rightarrow>
     (job \<Rightarrow> nat) \<Rightarrow> iteration" where
  "worker_iteration s b backoff_base tp ta tm tu plan =
     (case get_pending_jobs s 1 tp plan of
        [] \<Rightarrow> No_jobs s
      | job_data # rest \<Rightarrow>
          (case acquire_job s (job_id job_data) ta of
             (s1, acquired) \<Rightarrow>
               if \<not> acquired then Not_acquired s1
               else (case execute job_data b None of
                       None \<Rightarrow> Never_returns s1
                     | Some out \<Rightarrow> record_outcome s1 job_data out backoff_base tm tu)))"

text \<open>
  Several workers on one table. A worker is between passes, or holds the row it
  read and has not tried to acquire yet, or runs the command of the row it
  acquired. Every call of the store is one step; the steps of the workers, of the
  enqueue operation and of the dead letter queue's reset interleave in any order.
\<close>

datatype worker = Idle | Polled job | Running job

record system =
  store :: storage
  workers :: "nat \<Rightarrow> worker"

datatype action =
    Poll nat datetime "job \<Rightarrow> nat"
  | Acquire nat datetime
  | Finish nat run_result int datetime datetime
  | Stop nat
  | Enqueue string string int datetime
  | Reset string datetime

fun step :: "action \<Rightarrow> system \<Rightarrow> system" where
  "step (Poll w t plan) sys =
     (case workers sys w of
        Idle \<Rightarrow>
          (case get_pending_jobs (store sys) 1 t plan of
             [] \<Rightarrow> sys
           | job_data # rest \<Rightarrow> sys\<lparr>workers := (workers sys)(w := Polled job_data)\<rparr>)
      | _ \<Rightarrow> sys)"
| "step (Acquire w t) sys =
     (case workers sys w of
        Polled job_data \<Rightarrow>
          (case acquire_job (store sys) (job_id job_data) t of
             (s1, acquired) \<Rightarrow>
               sys\<lparr>store := s1,
                   workers := (workers sys)(w := if acquired then Running job_data else Idle)\<rparr>)
      | _ \<Rightarrow> sys)"
| "step (Finish w b backoff_base tm tu) sys =
     (case workers sys w of
        Running job_data \<Rightarrow>
          (case execute job_data b None of
             None \<Rightarrow> sys
           | Some out \<Rightarrow>
               (case record_outcome (store sys) job_data out backoff_base tm tu of
                  Recorded s' \<Rightarrow> sys\<lparr>store := s', workers := (workers sys)(w := Idle)\<rparr>
                | _ \<Rightarrow> sys\<lparr>workers := (workers sys)(w := Idle)\<rparr>))
      | _ \<Rightarrow> sys)"
| "step (Stop w) sys = sys\<lparr>workers := (workers sys)(w := Idle)\<rparr>"
| "step (Enqueue i cmd mr t) sys =
     (case create_job (store sys) i cmd mr t of
        Inl e \<Rightarrow> sys
      | Inr (s', r) \<Rightarrow> sys\<lparr>store := s'\<rparr>)"
| "step (Reset i t) sys = sys\<lparr>store := fst (reset_job_for_retry (store sys) i t)\<rparr>"

definition init_system :: system where
  "init_system = \<lparr>store = [], workers = (\<lambda>w. Idle)\<rparr>"

fun run_actions :: "action list \<Rightarrow> system \<Rightarrow> system" where
  "run_actions [] sys = sys"
| "run_actions (a # as) sys = run_actions as (step a sys)"

text \<open>The table a pass of the loop leaves behind.\<close>

fun stored :: "iteration \<Rightarrow> storage" where
  "stored (No_jobs s) = s"
| "stored (Not_acquired s) = s"
| "stored (Never_returns s) = s"
| "stored (Raised s e) = s"
| "stored (Recorded s) = s"

text \<open>
  The invariant of the interleaved system: ids are unique, a worker that runs a
  command holds a row that is \<^verbatim>\<open>processing\<close>, and no two workers run the same id.
\<close>

definition exclusive :: "system \<Rightarrow> bool" where
  "exclusive sys =
     (distinct (map job_id (store sys)) \<and>
      (\<forall>w jd. workers sys w = Running jd \<longrightarrow>
         (\<exists>j\<in>set (store sys). job_id j = job_id jd \<and> state j = Processing)) \<and>
      (\<forall>w w' jd jd'. workers sys w = Running jd \<and> workers sys w' = Running jd' \<and>
         job_id jd = job_id jd' \<longrightarrow> w = w'))"

text \<open>What the rows of a reachable table satisfy about \<^verbatim>\<open>next_retry_at\<close>.\<close>

definition retry_time_consistent :: "storage \<Rightarrow> bool" where
  "retry_time_consistent s =
     (\<forall>j\<in>set s. (state j = Failed \<longrightarrow> next_retry_at j \<noteq> None) \<and>
                  (state j = Pending \<or> state j = Dead \<longrightarrow> next_retry_at j = None))"

section \<open>A run of the validation script's scenario\<close>

text \<open>
  Clock readings on 2024-01-01, given in microseconds after midnight, and the job of
  the script's retry test: a command the shell does not find (exit code 127), with
  \<^verbatim>\<open>max_retries\<close> 2 and \<^verbatim>\<open>backoff_base\<close> 2.
\<close>

text \<open>The plan that visits the rows in table order.\<close>

definition table_order :: "job \<Rightarrow> nat" where
  "table_order j = 0"

definition example_time :: "nat \<Rightarrow> datetime" where
  "example_time us = 63839664000000000 + us"

definition example_failure :: run_result where
  "example_failure = Exits 0 127 [] ''/bin/sh: 1: nonexistentcommand12345: not found''"

definition example_success :: run_result where
  "example_success = Exits 0 0 (''hi'' @ [CHR 0x0A]) []"

definition example_enqueued :: storage where
  "example_enqueued =
     (case create_job [] ''test4'' ''nonexistentcommand12345'' 2 (example_time 250000) of
        Inl e \<Rightarrow> [] | Inr (s, r) \<Rightarrow> s)"

definition example_pass1 :: iteration where
  "example_pass1 = worker_iteration example_enqueued example_failure 2
     (example_time 500000) (example_time 500100) (example_time 700000) (example_time 700100) table_order"

definition example_pass2 :: iteration where
  "example_pass2 = worker_iteration (stored example_pass1) example_failure 2
     (example_time 3000000) (example_time 3000100) (example_time 3200000) (example_time 3200100) table_order"

text \<open>
  The first pass again, with the failure marked at 00:00:01 exactly: the retry time
  is 00:00:03 exactly, and its text has no fraction.
\<close>

definition example_pass_whole_second :: iteration where
  "example_pass_whole_second = worker_iteration example_enqueued example_failure 2
     (example_time 500000) (example_time 500100) (example_time 1000000) (example_time 1000100)
     table_order"

definition example_pass3 :: iteration where
  "example_pass3 = worker_iteration (stored example_pass2) example_failure 2
     (example_time 10000000) (example_time 10000100) (example_time 10200000) (example_time 10200100) table_order"

text \<open>
  The same two passes as steps of worker 1 in the interleaved system; worker 2 reads
  the failed job as well, before worker 1 acquires it.
\<close>

definition example_dead_run :: "action list" where
  "example_dead_run =
     [Enqueue ''test4'' ''nonexistentcommand12345'' 2 (example_time 250000),
      Poll 1 (example_time 500000) table_order, Acquire 1 (example_time 500100),
      Finish 1 example_failure 2 (example_time 700000) (example_time 700100),
      Poll 1 (example_time 3000000) table_order, Poll 2 (example_time 3000000) table_order,
      Acquire 1 (example_time 3000100),
      Finish 1 example_failure 2 (example_time 3200000) (example_time 3200100)]"

text \<open>
  The retry as steps: after the first failure the job is acquired again, and then its
  command succeeds.
\<close>

definition example_retry_run :: "action list" where
  "example_retry_run =
     [Enqueue ''test4'' ''nonexistentcommand12345'' 2 (example_time 250000),
      Poll 1 (example_time 500000) table_order, Acquire 1 (example_time 500100),
      Finish 1 example_failure 2 (example_time 700000) (example_time 700100),
      Poll 1 (example_time 3000000) table_order, Acquire 1 (example_time 3000100)]"

definition example_retry_success_run :: "action list" where
  "example_retry_success_run =
     example_retry_run @
     [Finish 1 example_success 2 (example_time 3200000) (example_time 3200100)]"

text \<open>Two workers read the enqueued job and try to acquire it at the same instant.\<close>

definition example_race :: "action list" where
  "example_race =
     [Enqueue ''test4'' ''nonexistentcommand12345'' 2 (example_time 250000),
      Poll 1 (example_time 500000) table_order, Poll 2 (example_time 500000) table_order,
      Acquire 1 (example_time 500100), Acquire 2 (example_time 500100)]"

text \<open>The scenario of the specification: \<^verbatim>\<open>{"id":"t1","command":"echo hi"}\<close>, one pass.\<close>

definition example_echo_enqueued :: storage where
  "example_echo_enqueued =
     (case create_job [] ''t1'' ''echo hi'' 3 (example_time 250000) of
        Inl e \<Rightarrow> [] | Inr (s, r) \<Rightarrow> s)"

definition example_echo_pass :: iteration where
  "example_echo_pass = worker_iteration example_echo_enqueued example_success 2
     (example_time 500000) (example_time 500100) (example_time 700000) (example_time 700100) table_order"

text \<open>
  Two workers read the enqueued job; the second runs it first and fails, and then
  the first acquires it at 00:00:03 with the row it read at 00:00:00.5.
\<close>

definition example_stale_run :: "action list" where
  "example_stale_run =
     [Enqueue ''test4'' ''nonexistentcommand12345'' 2 (example_time 250000),
      Poll 1 (example_time 500000) table_order, Poll 2 (example_time 500000) table_order,
      Acquire 2 (example_time 500100),
      Finish 2 example_failure 2 (example_time 700000) (example_time 700100),
      Acquire 1 (example_time 3000100),
      Finish 1 example_failure 2 (example_time 3200000) (example_time 3200100)]"

text \<open>Two jobs, enqueued at 00:00:01 exactly and at 00:00:01.5.\<close>

definition example_two_enqueued :: storage where
  "example_two_enqueued =
     (case create_job [] ''a'' ''echo a'' 3 (example_time 1000000) of
        Inl e \<Rightarrow> []
      | Inr (s, r) \<Rightarrow>
          (case create_job s ''b'' ''echo b'' 3 (example_time 1500000) of
             Inl e \<Rightarrow> s | Inr (s', r') \<Rightarrow> s'))"

text \<open>A job with \<^verbatim>\<open>max_retries\<close> 5 that a worker runs, after \<open>n\<close> failed attempts.\<close>

definition example_job :: "nat \<Rightarrow> job" where
  "example_job n =
     \<lparr>job_id = ''test9'', command = ''exit 1'', state = Processing, attempts = n,
      max_retries = 5, next_retry_at = None, created_at = ''2024-01-01T00:00:00.250000Z'',
      updated_at = ''2024-01-01T00:00:00.250000Z'', completed_at = None,
      error_message = None\<rparr>"


section \<open>Evaluating timestamps\<close>

lemma digit_0: "digit 0 = CHR ''0''"
  by (simp add: digit_def)

lemma length_dec: "0 < w \<Longrightarrow> n < 10 ^ w \<Longrightarrow> length (dec n) \<le> w"
proof (induction w arbitrary: n)
  case 0
  then show ?case by simp
next
  case (Suc w)
  show ?case
  proof (cases "n < 10")
    case True
    then show ?thesis by (simp add: dec.simps)
  next
    case False
    then have w: "0 < w" using Suc.prems by (cases w) auto
    have "n div 10 < 10 ^ w" using Suc.prems by (simp add: less_mult_imp_div_less mult.commute)
    from Suc.IH[OF w this] False show ?thesis by (simp add: dec.simps[of n])
  qed
qed

lemma zfill_1: "n < 10 \<Longrightarrow> zfill 1 n = [digit n]"
  by (simp add: zfill_def dec.simps)

lemma zfill_Suc:
  assumes "0 < w" "n < 10 ^ Suc w"
  shows "zfill (Suc w) n = zfill w (n div 10) @ [digit (n mod 10)]"
proof (cases "n < 10")
  case True
  have "replicate (w - 1) (CHR ''0'') @ [CHR ''0''] = replicate w (CHR ''0'')"
    using assms(1) by (cases w) (simp_all add: replicate_append_same)
  then show ?thesis using True
    by (simp add: zfill_def dec.simps[of n] dec.simps[of 0] digit_0)
next
  case False
  have "n div 10 < 10 ^ w" using assms(2) by (simp add: less_mult_imp_div_less mult.commute)
  from length_dec[OF assms(1) this] False show ?thesis
    by (simp add: zfill_def dec.simps[of n] Suc_diff_le)
qed

lemma zfill_2: "n < 100 \<Longrightarrow> zfill 2 n = [digit (n div 10), digit (n mod 10)]"
proof -
  assume a: "n < 100"
  then have "zfill (Suc (Suc 0)) n = zfill (Suc 0) (n div 10) @ [digit (n mod 10)]"
    using zfill_Suc[of "Suc 0" n] by simp
  moreover have "n div 10 < 10" using a by simp
  ultimately show ?thesis using zfill_1[of "n div 10"] by (simp add: numeral_2_eq_2)
qed

lemma zfill_3: "n < 1000 \<Longrightarrow> zfill 3 n = zfill 2 (n div 10) @ [digit (n mod 10)]"
proof -
  assume "n < 1000"
  then have "n < 10 ^ Suc 2" by simp
  from zfill_Suc[OF _ this] show ?thesis by simp
qed

lemma zfill_4: "n < 10000 \<Longrightarrow> zfill 4 n = zfill 3 (n div 10) @ [digit (n mod 10)]"
proof -
  assume "n < 10000"
  then have "n < 10 ^ Suc 3" by simp
  from zfill_Suc[OF _ this] show ?thesis by simp
qed

lemma zfill_5: "n < 100000 \<Longrightarrow> zfill 5 n = zfill 4 (n div 10) @ [digit (n mod 10)]"
proof -
  assume "n < 100000"
  then have "n < 10 ^ Suc 4" by simp
  from zfill_Suc[OF _ this] show ?thesis by simp
qed

lemma zfill_6: "n < 1000000 \<Longrightarrow> zfill 6 n = zfill 5 (n div 10) @ [digit (n mod 10)]"
proof -
  assume "n < 1000000"
  then have "n < 10 ^ Suc 5" by simp
  from zfill_Suc[OF _ this] show ?thesis by simp
qed

lemmas zfill_eval = zfill_2 zfill_3 zfill_4 zfill_5 zfill_6 digit_def

lemma ord2ymd_example: "ord2ymd 738885 = (2024, 1, 1)"
  by (simp add: ord2ymd_def DAYS_BEFORE_MONTH_def DAYS_IN_MONTH_def Let_def)


lemma example_texts:
  "utc_text (example_time 250000) = ''2024-01-01T00:00:00.250000Z''"
  "utc_text (example_time 500000) = ''2024-01-01T00:00:00.500000Z''"
  "utc_text (example_time 500100) = ''2024-01-01T00:00:00.500100Z''"
  "utc_text (example_time 700000) = ''2024-01-01T00:00:00.700000Z''"
  "utc_text (example_time 700100) = ''2024-01-01T00:00:00.700100Z''"
  "utc_text (example_time 1000000) = ''2024-01-01T00:00:01Z''"
  "utc_text (example_time 1000100) = ''2024-01-01T00:00:01.000100Z''"
  "utc_text (example_time 1500000) = ''2024-01-01T00:00:01.500000Z''"
  "utc_text (example_time 2000000) = ''2024-01-01T00:00:02Z''"
  "utc_text (example_time 2500000) = ''2024-01-01T00:00:02.500000Z''"
  "utc_text (example_time 2700000) = ''2024-01-01T00:00:02.700000Z''"
  "utc_text (example_time 3000000) = ''2024-01-01T00:00:03Z''"
  "utc_text (example_time 3000100) = ''2024-01-01T00:00:03.000100Z''"
  "utc_text (example_time 3200000) = ''2024-01-01T00:00:03.200000Z''"
  "utc_text (example_time 3200100) = ''2024-01-01T00:00:03.200100Z''"
  "utc_text (example_time 3500000) = ''2024-01-01T00:00:03.500000Z''"
  "utc_text (example_time 10000000) = ''2024-01-01T00:00:10Z''"
  by (simp_all add: example_time_def utc_text_def isoformat_def ord2ymd_example zfill_eval Let_def)

section \<open>Rows and their ids\<close>

lemma get_job_None: "get_job s i = None \<longleftrightarrow> (\<forall>j\<in>set s. job_id j \<noteq> i)"
  by (auto simp: get_job_def find_None_iff)

lemma get_job_Some_mem: "get_job s i = Some j \<Longrightarrow> j \<in> set s \<and> job_id j = i"
  by (induction s) (auto simp: get_job_def split: if_splits)

lemma get_job_unique:
  "distinct (map job_id s) \<Longrightarrow> j \<in> set s \<Longrightarrow> get_job s (job_id j) = Some j"
  by (induction s) (auto simp: get_job_def)

lemma get_job_map:
  "(\<And>j. job_id (f j) = job_id j) \<Longrightarrow> get_job (map f s) k = map_option f (get_job s k)"
  by (induction s) (auto simp: get_job_def)

lemma acquire_job_unchanged:
  "\<forall>j\<in>set s. \<not> acquire_where i (utc_text t) j \<Longrightarrow> acquire_job s i t = (s, False)"
  by (simp add: acquire_job_def Let_def filter_empty_conv map_idI)

lemma acquire_job_success:
  "snd (acquire_job s i t) \<longleftrightarrow> (\<exists>j\<in>set s. acquire_where i (utc_text t) j)"
  by (auto simp: acquire_job_def Let_def filter_empty_conv)

lemma acquire_job_get:
  "get_job (fst (acquire_job s i t)) k =
     map_option (\<lambda>j. if acquire_where i (utc_text t) j then j\<lparr>state := Processing\<rparr> else j) (get_job s k)"
  by (simp add: acquire_job_def Let_def get_job_map)

lemma acquire_job_cases:
  assumes "distinct (map job_id s)"
  shows "case get_job s i of
           None \<Rightarrow> acquire_job s i t = (s, False)
         | Some j \<Rightarrow>
             if (state j = Pending \<or> state j = Failed) \<and>
                (case next_retry_at j of None \<Rightarrow> True | Some r \<Rightarrow> r \<le> utc_text t)
             then snd (acquire_job s i t) \<and>
                  get_job (fst (acquire_job s i t)) i = Some (j\<lparr>state := Processing\<rparr>) \<and>
                  (\<forall>k. k \<noteq> i \<longrightarrow> get_job (fst (acquire_job s i t)) k = get_job s k)
             else acquire_job s i t = (s, False)"
proof (cases "get_job s i")
  case None
  then have "\<forall>j\<in>set s. \<not> acquire_where i (utc_text t) j"
    by (simp add: get_job_None acquire_where_def)
  then show ?thesis using None by (simp add: acquire_job_unchanged)
next
  case (Some j)
  then have mem: "j \<in> set s" and id: "job_id j = i"
    using get_job_Some_mem by blast+
  have uniq: "\<And>j'. j' \<in> set s \<Longrightarrow> job_id j' = i \<Longrightarrow> j' = j"
    using assms Some get_job_unique by fastforce
  show ?thesis
  proof (cases "ready_where (utc_text t) j")
    case True
    then have acq: "acquire_where i (utc_text t) j"
      by (simp add: acquire_where_def id)
    have 1: "snd (acquire_job s i t)"
      using acq mem by (auto simp: acquire_job_success)
    have 2: "get_job (fst (acquire_job s i t)) i = Some (j\<lparr>state := Processing\<rparr>)"
      using acq Some by (simp add: acquire_job_get)
    have 3: "\<forall>k. k \<noteq> i \<longrightarrow> get_job (fst (acquire_job s i t)) k = get_job s k"
    proof (intro allI impI)
      fix k assume "k \<noteq> i"
      show "get_job (fst (acquire_job s i t)) k = get_job s k"
      proof (cases "get_job s k")
        case None
        then show ?thesis by (simp add: acquire_job_get)
      next
        case (Some j')
        then have "job_id j' = k" using get_job_Some_mem by blast
        then have "\<not> acquire_where i (utc_text t) j'"
          using \<open>k \<noteq> i\<close> by (simp add: acquire_where_def)
        then show ?thesis using Some by (simp add: acquire_job_get)
      qed
    qed
    from True 1 2 3 Some show ?thesis by (simp add: ready_where_def)
  next
    case False
    have "\<forall>j'\<in>set s. \<not> acquire_where i (utc_text t) j'"
    proof
      fix j' assume "j' \<in> set s"
      show "\<not> acquire_where i (utc_text t) j'"
      proof
        assume a: "acquire_where i (utc_text t) j'"
        then have "j' = j" using uniq \<open>j' \<in> set s\<close> by (simp add: acquire_where_def)
        with a False show False by (simp add: acquire_where_def)
      qed
    qed
    then have "acquire_job s i t = (s, False)" by (rule acquire_job_unchanged)
    with False Some show ?thesis by (simp add: ready_where_def)
  qed
qed


section \<open>The invariant of the interleaved system\<close>

lemma exclusive_row:
  "exclusive sys \<Longrightarrow> workers sys w = Running jd \<Longrightarrow>
     \<exists>j\<in>set (store sys). job_id j = job_id jd \<and> state j = Processing"
  unfolding exclusive_def by blast

lemma exclusive_worker:
  "exclusive sys \<Longrightarrow> workers sys w = Running jd \<Longrightarrow> workers sys w' = Running jd' \<Longrightarrow>
     job_id jd = job_id jd' \<Longrightarrow> w = w'"
  unfolding exclusive_def by blast

lemma exclusiveI:
  assumes "distinct (map job_id (store sys))"
    and "\<And>w jd. workers sys w = Running jd \<Longrightarrow>
           \<exists>j\<in>set (store sys). job_id j = job_id jd \<and> state j = Processing"
    and "\<And>w w' jd jd'. workers sys w = Running jd \<Longrightarrow> workers sys w' = Running jd' \<Longrightarrow>
           job_id jd = job_id jd' \<Longrightarrow> w = w'"
  shows "exclusive sys"
  unfolding exclusive_def using assms by blast

lemma exclusive_distinct: "exclusive sys \<Longrightarrow> distinct (map job_id (store sys))"
  unfolding exclusive_def by blast

lemma acquire_job_ids [simp]: "map job_id (fst (acquire_job s i t)) = map job_id s"
  by (simp add: acquire_job_def Let_def comp_def)

lemma reset_job_ids [simp]: "map job_id (fst (reset_job_for_retry s i t)) = map job_id s"
  by (simp add: reset_job_for_retry_def Let_def comp_def)

lemma acquire_job_keeps_processing:
  "j \<in> set s \<Longrightarrow> state j = Processing \<Longrightarrow> j \<in> set (fst (acquire_job s i t))"
  by (force simp: acquire_job_def Let_def acquire_where_def ready_where_def)

lemma reset_keeps_not_dead:
  "j \<in> set s \<Longrightarrow> state j \<noteq> Dead \<Longrightarrow> j \<in> set (fst (reset_job_for_retry s i t))"
  by (force simp: reset_job_for_retry_def Let_def)

lemma acquire_job_True:
  "acquire_job s i t = (s1, True) \<Longrightarrow>
     \<exists>j\<in>set s. job_id j = i \<and> (state j = Pending \<or> state j = Failed)"
  using acquire_job_success[of s i t] by (auto simp: acquire_where_def ready_where_def)

lemma acquire_job_True_processing:
  "acquire_job s i t = (s1, True) \<Longrightarrow> \<exists>j\<in>set s1. job_id j = i \<and> state j = Processing"
proof -
  assume a: "acquire_job s i t = (s1, True)"
  then obtain j where j: "j \<in> set s" "acquire_where i (utc_text t) j"
    using acquire_job_success[of s i t] by auto
  then have "j\<lparr>state := Processing\<rparr> \<in> set s1"
    using a by (force simp: acquire_job_def Let_def)
  moreover have "job_id j = i" using j by (simp add: acquire_where_def)
  ultimately show ?thesis
    by (intro bexI[of _ "j\<lparr>state := Processing\<rparr>"]) simp_all
qed

lemma distinct_ids_unique:
  "distinct (map job_id s) \<Longrightarrow> j \<in> set s \<Longrightarrow> j' \<in> set s \<Longrightarrow> job_id j = job_id j' \<Longrightarrow> j = j'"
  by (meson distinct_map inj_onD)

lemma set_columns_to_dict [simp]:
  "set_columns ((to_dict j')\<lparr>u_updated_at := Some x\<rparr>) j = j'\<lparr>updated_at := x\<rparr>"
  by (simp add: set_columns_def to_dict_def)

lemma update_job_to_dict:
  "update_job s i (to_dict j') t = Inr (s', r) \<Longrightarrow>
     s' = map (\<lambda>j. if job_id j = i then j'\<lparr>updated_at := utc_text t\<rparr> else j) s \<and>
     distinct (map job_id s')"
  by (auto simp: update_job_def Let_def split: if_splits)

lemma mark_for_retry_Inr:
  "mark_for_retry j b t = Inr j' \<Longrightarrow>
     job_id j' = job_id j \<and> (state j' = Failed \<or> state j' = Dead) \<and>
     (state j' = Failed \<longrightarrow> next_retry_at j' \<noteq> None) \<and>
     (state j' = Dead \<longrightarrow> next_retry_at j' = None)"
  by (auto simp: mark_for_retry_def Let_def split: if_splits sum.splits)

lemma record_outcome_Recorded:
  assumes "record_outcome s jd out b tm tu = Recorded s'"
  shows "\<exists>j'. s' = map (\<lambda>j. if job_id j = job_id jd then j'\<lparr>updated_at := utc_text tu\<rparr> else j) s \<and>
           distinct (map job_id s') \<and> job_id j' = job_id jd \<and>
           (if success out then j' = mark_completed jd tm
            else mark_failed jd (error_msg out) b tm = Inr j')"
proof (cases "success out")
  case True
  then obtain r where "update_job s (job_id jd) (to_dict (mark_completed jd tm)) tu = Inr (s', r)"
    using assms by (auto simp: record_outcome_def split: sum.splits)
  from update_job_to_dict[OF this]
  have A: "s' = map (\<lambda>j. if job_id j = job_id jd
                         then (mark_completed jd tm)\<lparr>updated_at := utc_text tu\<rparr> else j) s"
    and B: "distinct (map job_id s')" by blast+
  have "job_id (mark_completed jd tm) = job_id jd" by (simp add: mark_completed_def)
  with A B True show ?thesis
    by (intro exI[of _ "mark_completed jd tm"]) simp
next
  case False
  then obtain j' r where j': "mark_failed jd (error_msg out) b tm = Inr j'"
    and "update_job s (job_id jd) (to_dict j') tu = Inr (s', r)"
    using assms by (auto simp: record_outcome_def split: sum.splits)
  from update_job_to_dict[OF this(2)]
  have A: "s' = map (\<lambda>j. if job_id j = job_id jd then j'\<lparr>updated_at := utc_text tu\<rparr> else j) s"
    and B: "distinct (map job_id s')" by blast+
  have "job_id j' = job_id jd"
    using mark_for_retry_Inr[of "jd\<lparr>error_message := error_msg out\<rparr>" b tm j'] j'
    by (simp add: mark_failed_def)
  with A B False j' show ?thesis by auto
qed

lemma record_outcome_store:
  "record_outcome s jd out b tm tu = Raised s' e \<Longrightarrow> s' = s"
  by (auto simp: record_outcome_def split: sum.splits if_splits)

lemma record_outcome_cases:
  "(\<exists>s'. record_outcome s jd out b tm tu = Recorded s') \<or>
   (\<exists>e. record_outcome s jd out b tm tu = Raised s e)"
  by (auto simp: record_outcome_def split: sum.splits if_splits)

lemma exclusive_Poll: "exclusive sys \<Longrightarrow> exclusive (step (Poll w t plan) sys)"
  by (auto simp: exclusive_def split: worker.splits list.splits)

lemma exclusive_Stop: "exclusive sys \<Longrightarrow> exclusive (step (Stop w) sys)"
  by (auto simp: exclusive_def)

lemma exclusive_Enqueue: "exclusive sys \<Longrightarrow> exclusive (step (Enqueue i cmd mr t) sys)"
  by (auto simp: exclusive_def create_job_def Let_def split: sum.splits if_splits)

lemma exclusive_Reset:
  assumes "exclusive sys" shows "exclusive (step (Reset i t) sys)"
proof -
  have "\<exists>j\<in>set (fst (reset_job_for_retry (store sys) i t)). job_id j = job_id jd \<and> state j = Processing"
    if "workers sys w = Running jd" for w jd
  proof -
    from exclusive_row[OF assms that] obtain j where
      "j \<in> set (store sys)" "job_id j = job_id jd" "state j = Processing" by blast
    then show ?thesis using reset_keeps_not_dead[of j "store sys" i t] by auto
  qed
  then show ?thesis using assms by (simp add: exclusive_def)
qed

lemma exclusive_Acquire:
  assumes "exclusive sys" shows "exclusive (step (Acquire w t) sys)"
proof (cases "workers sys w")
  case (Polled jd)
  obtain s1 ok where acq: "acquire_job (store sys) (job_id jd) t = (s1, ok)"
    by (cases "acquire_job (store sys) (job_id jd) t")
  have s1: "s1 = fst (acquire_job (store sys) (job_id jd) t)" using acq by simp
  have d: "distinct (map job_id s1)" using assms by (simp add: s1 exclusive_def)
  have keep: "\<exists>j\<in>set s1. job_id j = job_id jd' \<and> state j = Processing"
    if "workers sys w' = Running jd'" for w' jd'
  proof -
    from exclusive_row[OF assms that] obtain j where
      "j \<in> set (store sys)" "job_id j = job_id jd'" "state j = Processing" by blast
    then show ?thesis using acquire_job_keeps_processing[of j "store sys" "job_id jd" t] s1 by auto
  qed
  show ?thesis
  proof (cases ok)
    case True
    have acq': "acquire_job (store sys) (job_id jd) t = (s1, True)" using acq True by simp
    have new: "\<exists>j\<in>set s1. job_id j = job_id jd \<and> state j = Processing"
      using acquire_job_True_processing[OF acq'] .
    have fresh: "job_id jd' \<noteq> job_id jd" if "workers sys w' = Running jd'" for w' jd'
    proof
      assume eq: "job_id jd' = job_id jd"
      from exclusive_row[OF assms that] obtain j where
        j: "j \<in> set (store sys)" "job_id j = job_id jd'" "state j = Processing" by blast
      from acquire_job_True[OF acq'] obtain j0 where j0: "j0 \<in> set (store sys)" "job_id j0 = job_id jd"
        "state j0 = Pending \<or> state j0 = Failed" by blast
      have "j = j0" using distinct_ids_unique[of "store sys" j j0] assms j j0 eq
        by (simp add: exclusive_def)
      with j j0 show False by auto
    qed
    have st: "step (Acquire w t) sys =
        sys\<lparr>store := s1, workers := (workers sys)(w := Running jd)\<rparr>"
      using Polled acq True by simp
    show ?thesis
      unfolding st
    proof (rule exclusiveI)
      show "distinct (map job_id (store (sys\<lparr>store := s1, workers := (workers sys)(w := Running jd)\<rparr>)))"
        using d by simp
    next
      fix v vd
      assume "workers (sys\<lparr>store := s1, workers := (workers sys)(w := Running jd)\<rparr>) v = Running vd"
      then have "(v = w \<and> vd = jd) \<or> workers sys v = Running vd"
        by (simp split: if_splits)
      then show "\<exists>j\<in>set (store (sys\<lparr>store := s1, workers := (workers sys)(w := Running jd)\<rparr>)).
                  job_id j = job_id vd \<and> state j = Processing"
        using new keep by auto
    next
      fix v v' vd vd'
      assume "workers (sys\<lparr>store := s1, workers := (workers sys)(w := Running jd)\<rparr>) v = Running vd"
        and "workers (sys\<lparr>store := s1, workers := (workers sys)(w := Running jd)\<rparr>) v' = Running vd'"
        and eq: "job_id vd = job_id vd'"
      then have a: "(v = w \<and> vd = jd) \<or> (v \<noteq> w \<and> workers sys v = Running vd)"
        and b: "(v' = w \<and> vd' = jd) \<or> (v' \<noteq> w \<and> workers sys v' = Running vd')"
        by (simp_all split: if_splits)
      then show "v = v'"
        using eq fresh exclusive_worker[OF assms, of v vd v' vd'] by metis
    qed
  next
    case False
    have st: "step (Acquire w t) sys = sys\<lparr>store := s1, workers := (workers sys)(w := Idle)\<rparr>"
      using Polled acq False by simp
    show ?thesis
      unfolding st
    proof (rule exclusiveI)
      show "distinct (map job_id (store (sys\<lparr>store := s1, workers := (workers sys)(w := Idle)\<rparr>)))"
        using d by simp
    next
      fix v vd
      assume "workers (sys\<lparr>store := s1, workers := (workers sys)(w := Idle)\<rparr>) v = Running vd"
      then have "workers sys v = Running vd"
        by (simp split: if_splits)
      then show "\<exists>j\<in>set (store (sys\<lparr>store := s1, workers := (workers sys)(w := Idle)\<rparr>)).
                  job_id j = job_id vd \<and> state j = Processing"
        using keep by auto
    next
      fix v v' vd vd'
      assume "workers (sys\<lparr>store := s1, workers := (workers sys)(w := Idle)\<rparr>) v = Running vd"
        and "workers (sys\<lparr>store := s1, workers := (workers sys)(w := Idle)\<rparr>) v' = Running vd'"
        and eq: "job_id vd = job_id vd'"
      then have "workers sys v = Running vd" "workers sys v' = Running vd'"
        by (simp_all split: if_splits)
      then show "v = v'"
        using eq exclusive_worker[OF assms] by blast
    qed
  qed
qed (use assms in \<open>auto simp: exclusive_def\<close>)

lemma exclusive_Finish:
  assumes "exclusive sys" shows "exclusive (step (Finish w b bb tm tu) sys)"
proof (cases "workers sys w")
  case (Running jd)
  show ?thesis
  proof (cases "execute jd b None")
    case None
    then show ?thesis using Running assms by simp
  next
    case (Some out)
    have idle: "exclusive (sys\<lparr>workers := (workers sys)(w := Idle)\<rparr>)"
      using assms by (auto simp: exclusive_def)
    show ?thesis
    proof (cases "record_outcome (store sys) jd out bb tm tu")
      case (Recorded s')
      from record_outcome_Recorded[OF Recorded] obtain j' where
        s': "s' = map (\<lambda>j. if job_id j = job_id jd then j'\<lparr>updated_at := utc_text tu\<rparr> else j) (store sys)"
        and d: "distinct (map job_id s')" by blast
      have keep: "\<exists>j\<in>set s'. job_id j = job_id jd' \<and> state j = Processing"
        if "workers sys w' = Running jd'" "w' \<noteq> w" for w' jd'
      proof -
        have ne: "job_id jd' \<noteq> job_id jd"
          using exclusive_worker[OF assms that(1) Running] that(2) by auto
        from exclusive_row[OF assms that(1)] obtain j where
          j: "j \<in> set (store sys)" "job_id j = job_id jd'" "state j = Processing" by blast
        then have "j \<in> set s'" using ne by (force simp: s')
        with j show ?thesis by auto
      qed
      have st: "step (Finish w b bb tm tu) sys =
          sys\<lparr>store := s', workers := (workers sys)(w := Idle)\<rparr>"
        using Running Some Recorded by simp
      show ?thesis
        unfolding st
      proof (rule exclusiveI)
        show "distinct (map job_id (store (sys\<lparr>store := s', workers := (workers sys)(w := Idle)\<rparr>)))"
          using d by simp
      next
        fix v vd
        assume "workers (sys\<lparr>store := s', workers := (workers sys)(w := Idle)\<rparr>) v = Running vd"
        then have "workers sys v = Running vd" "v \<noteq> w"
          by (simp_all split: if_splits)
        then show "\<exists>j\<in>set (store (sys\<lparr>store := s', workers := (workers sys)(w := Idle)\<rparr>)).
                    job_id j = job_id vd \<and> state j = Processing"
          using keep by auto
      next
        fix v v' vd vd'
        assume "workers (sys\<lparr>store := s', workers := (workers sys)(w := Idle)\<rparr>) v = Running vd"
          and "workers (sys\<lparr>store := s', workers := (workers sys)(w := Idle)\<rparr>) v' = Running vd'"
          and eq: "job_id vd = job_id vd'"
        then have "workers sys v = Running vd" "workers sys v' = Running vd'"
          by (simp_all split: if_splits)
        then show "v = v'"
          using eq exclusive_worker[OF assms] by blast
      qed
    qed (use Running Some idle in auto)
  qed
qed (use assms in \<open>auto simp: exclusive_def\<close>)

lemma exclusive_step: "exclusive sys \<Longrightarrow> exclusive (step a sys)"
  by (cases a) (simp_all only: exclusive_Poll exclusive_Acquire exclusive_Finish exclusive_Stop
      exclusive_Enqueue exclusive_Reset)

lemma exclusive_run: "exclusive sys \<Longrightarrow> exclusive (run_actions as sys)"
  by (induction as arbitrary: sys) (simp_all add: exclusive_step)

lemma exclusive_init: "exclusive init_system"
  by (simp add: exclusive_def init_system_def)


section \<open>The scenario, evaluated\<close>

lemma example_enqueued_eq:
  "example_enqueued =
     [\<lparr>job_id = ''test4'', command = ''nonexistentcommand12345'', state = Pending, attempts = 0,
       max_retries = 2, next_retry_at = None, created_at = ''2024-01-01T00:00:00.250000Z'',
       updated_at = ''2024-01-01T00:00:00.250000Z'', completed_at = None, error_message = None\<rparr>]"
  by (simp add: example_enqueued_def create_job_def example_texts Let_def)

lemma example_next_retry:
  "attempts j = 1 \<Longrightarrow>
     calculate_next_retry j 2 (example_time 700000) = Inr ''2024-01-01T00:00:02.700000Z''"
proof -
  assume "attempts j = 1"
  moreover have "nat (int (example_time 700000) + 2000000) = example_time 2700000"
    by (simp add: example_time_def)
  ultimately show ?thesis
    using example_texts(11)
    by (simp add: calculate_next_retry_def timedelta_seconds_def datetime_add_def MAX_DATETIME_def
        utc_text_def Let_def example_time_def[of 700000])
qed

lemma example_pass1_eq:
  "example_pass1 = Recorded
     [\<lparr>job_id = ''test4'', command = ''nonexistentcommand12345'', state = Failed, attempts = 1,
       max_retries = 2, next_retry_at = Some ''2024-01-01T00:00:02.700000Z'',
       created_at = ''2024-01-01T00:00:00.250000Z'',
       updated_at = ''2024-01-01T00:00:00.700100Z'', completed_at = None,
       error_message = Some ''/bin/sh: 1: nonexistentcommand12345: not found''\<rparr>]"
  by (simp add: example_pass1_def example_enqueued_eq worker_iteration_def get_pending_jobs_def table_order_def
      sql_limit_def ready_where_def acquire_job_def acquire_where_def example_texts
      example_failure_def execute_def record_outcome_def mark_failed_def mark_for_retry_def
      should_retry_def example_next_retry update_job_def to_dict_def set_columns_def get_job_def
      Let_def)

lemma example_pass2_eq:
  "example_pass2 = Recorded
     [\<lparr>job_id = ''test4'', command = ''nonexistentcommand12345'', state = Dead, attempts = 2,
       max_retries = 2, next_retry_at = None,
       created_at = ''2024-01-01T00:00:00.250000Z'',
       updated_at = ''2024-01-01T00:00:03.200100Z'', completed_at = None,
       error_message = Some ''/bin/sh: 1: nonexistentcommand12345: not found''\<rparr>]"
  by (simp add: example_pass2_def example_pass1_eq worker_iteration_def get_pending_jobs_def table_order_def
      sql_limit_def ready_where_def acquire_job_def acquire_where_def example_texts
      example_failure_def execute_def record_outcome_def mark_failed_def mark_for_retry_def
      should_retry_def update_job_def to_dict_def set_columns_def get_job_def
      Let_def)


section \<open>Acquisition\<close>

text \<open>
  What \<^verbatim>\<open>acquire_job\<close> does is stated by lemma \<open>acquire_job_cases\<close> above, in the order in
  which the store compares the texts of the timestamps: the job moves to
  \<^verbatim>\<open>processing\<close> if and only if it is \<^verbatim>\<open>pending\<close> or \<^verbatim>\<open>failed\<close> and the text of its
  \<^verbatim>\<open>next_retry_at\<close> is null or not greater than the text of the clock's reading; the
  call returns true exactly then, and otherwise changes no row.
\<close>

lemma example_next_retry_whole_second:
  "attempts j = 1 \<Longrightarrow>
     calculate_next_retry j 2 (example_time 1000000) = Inr ''2024-01-01T00:00:03Z''"
proof -
  assume "attempts j = 1"
  moreover have "nat (int (example_time 1000000) + 2000000) = example_time 3000000"
    by (simp add: example_time_def)
  ultimately show ?thesis
    using example_texts(12)
    by (simp add: calculate_next_retry_def timedelta_seconds_def datetime_add_def MAX_DATETIME_def
        utc_text_def Let_def example_time_def[of 1000000])
qed

lemma example_pass_whole_second_eq:
  "example_pass_whole_second = Recorded
     [\<lparr>job_id = ''test4'', command = ''nonexistentcommand12345'', state = Failed, attempts = 1,
       max_retries = 2, next_retry_at = Some ''2024-01-01T00:00:03Z'',
       created_at = ''2024-01-01T00:00:00.250000Z'',
       updated_at = ''2024-01-01T00:00:01.000100Z'', completed_at = None,
       error_message = Some ''/bin/sh: 1: nonexistentcommand12345: not found''\<rparr>]"
  by (simp add: example_pass_whole_second_def example_enqueued_eq worker_iteration_def
      get_pending_jobs_def table_order_def
      sql_limit_def ready_where_def acquire_job_def acquire_where_def example_texts
      example_failure_def execute_def record_outcome_def mark_failed_def mark_for_retry_def
      should_retry_def example_next_retry_whole_second update_job_def to_dict_def set_columns_def
      get_job_def Let_def)

text \<open>
  C1. The order of the texts is not the order of the instants: the text of an
  instant with a zero microsecond field has no fraction, and \<^verbatim>\<open>Z\<close> sorts after the
  point. The failed job of the scenario, with retry time 00:00:02.7, is acquired at
  00:00:02, before its retry time; and the same job with retry time 00:00:03 is
  refused at 00:00:03.5, after its retry time.
\<close>

theorem acquire_job_compares_text:
  "map next_retry_at (stored example_pass1) = [Some (utc_text (example_time 2700000))] \<and>
   example_time 2000000 < example_time 2700000 \<and>
   acquire_job (stored example_pass1) ''test4'' (example_time 2000000) =
     ([\<lparr>job_id = ''test4'', command = ''nonexistentcommand12345'', state = Processing,
        attempts = 1, max_retries = 2, next_retry_at = Some ''2024-01-01T00:00:02.700000Z'',
        created_at = ''2024-01-01T00:00:00.250000Z'',
        updated_at = ''2024-01-01T00:00:00.700100Z'', completed_at = None,
        error_message = Some ''/bin/sh: 1: nonexistentcommand12345: not found''\<rparr>], True) \<and>
   map next_retry_at (stored example_pass_whole_second) = [Some (utc_text (example_time 3000000))] \<and>
   example_time 3000000 < example_time 3500000 \<and>
   acquire_job (stored example_pass_whole_second) ''test4'' (example_time 3500000) =
     (stored example_pass_whole_second, False)"
  by (simp add: example_pass1_eq example_pass_whole_second_eq example_texts acquire_job_def
      acquire_where_def ready_where_def Let_def)
     (simp add: example_time_def)

lemma acquire_job_twice:
  assumes "distinct (map job_id s)"
  shows "\<not> (snd (acquire_job s i t1) \<and> snd (acquire_job (fst (acquire_job s i t1)) i t2))"
proof
  assume both: "snd (acquire_job s i t1) \<and> snd (acquire_job (fst (acquire_job s i t1)) i t2)"
  obtain s1 where a1: "acquire_job s i t1 = (s1, True)"
    using both by (cases "acquire_job s i t1") auto
  obtain s2 where a2: "acquire_job s1 i t2 = (s2, True)"
    using both a1 by (cases "acquire_job s1 i t2") auto
  have d: "distinct (map job_id s1)"
    using assms acquire_job_ids[of s i t1] a1 by simp
  from acquire_job_True_processing[OF a1] obtain j where
    j: "j \<in> set s1" "job_id j = i" "state j = Processing" by blast
  from acquire_job_True[OF a2] obtain j' where
    j': "j' \<in> set s1" "job_id j' = i" "state j' = Pending \<or> state j' = Failed" by blast
  have "j = j'" using distinct_ids_unique[OF d j(1) j'(1)] j(2) j'(2) by simp
  with j j' show False by auto
qed

lemma acquire_job_processing:
  "distinct (map job_id s) \<Longrightarrow> get_job s i = Some j \<Longrightarrow> state j = Processing \<Longrightarrow>
     acquire_job s i t = (s, False)"
  using acquire_job_cases[of s i t] by simp

lemma exclusive_run_init: "exclusive (run_actions as init_system)"
  by (rule exclusive_run[OF exclusive_init])

lemma example_race_store:
  "store (run_actions example_race init_system) =
     [\<lparr>job_id = ''test4'', command = ''nonexistentcommand12345'', state = Processing, attempts = 0,
       max_retries = 2, next_retry_at = None, created_at = ''2024-01-01T00:00:00.250000Z'',
       updated_at = ''2024-01-01T00:00:00.250000Z'', completed_at = None, error_message = None\<rparr>]"
  by (simp add: example_race_def init_system_def create_job_def get_pending_jobs_def table_order_def
      sql_limit_def ready_where_def acquire_job_def acquire_where_def example_texts get_job_def
      Let_def)

lemma example_race_workers:
  "workers (run_actions example_race init_system) 1 = Running
     \<lparr>job_id = ''test4'', command = ''nonexistentcommand12345'', state = Pending, attempts = 0,
       max_retries = 2, next_retry_at = None, created_at = ''2024-01-01T00:00:00.250000Z'',
       updated_at = ''2024-01-01T00:00:00.250000Z'', completed_at = None, error_message = None\<rparr>"
  "workers (run_actions example_race init_system) 2 = Idle"
  by (simp_all add: example_race_def init_system_def create_job_def get_pending_jobs_def table_order_def
      sql_limit_def ready_where_def acquire_job_def acquire_where_def example_texts get_job_def
      Let_def)

text \<open>
  C2. Every call of the store is one step (the store runs one statement at a time),
  and the steps of any number of workers, of the enqueue operation and of the reset
  interleave in any order. In every state this reaches: no two workers run the
  command of the same job; the job a worker runs is \<^verbatim>\<open>processing\<close>; \<^verbatim>\<open>acquire_job\<close> on
  a \<^verbatim>\<open>processing\<close> job fails and changes nothing; and of two attempts on one id, one
  after the other with nothing in between, at most one succeeds, whatever the two
  clock readings are.
\<close>

theorem acquisition_exclusive:
  assumes "sys = run_actions as init_system"
  shows "(\<forall>w w' jd jd'. workers sys w = Running jd \<and> workers sys w' = Running jd' \<and>
            job_id jd = job_id jd' \<longrightarrow> w = w') \<and>
         (\<forall>w jd. workers sys w = Running jd \<longrightarrow>
            (\<exists>j. get_job (store sys) (job_id jd) = Some j \<and> state j = Processing)) \<and>
         (\<forall>i j t. get_job (store sys) i = Some j \<and> state j = Processing \<longrightarrow>
            acquire_job (store sys) i t = (store sys, False)) \<and>
         (\<forall>i t1 t2. \<not> (snd (acquire_job (store sys) i t1) \<and>
            snd (acquire_job (fst (acquire_job (store sys) i t1)) i t2)))"
proof -
  have ex: "exclusive sys" using assms exclusive_run_init by simp
  have d: "distinct (map job_id (store sys))" using ex by (rule exclusive_distinct)
  have 1: "\<forall>w w' jd jd'. workers sys w = Running jd \<and> workers sys w' = Running jd' \<and>
            job_id jd = job_id jd' \<longrightarrow> w = w'"
    using exclusive_worker[OF ex] by blast
  have 2: "\<forall>w jd. workers sys w = Running jd \<longrightarrow>
            (\<exists>j. get_job (store sys) (job_id jd) = Some j \<and> state j = Processing)"
  proof (intro allI impI)
    fix w jd assume "workers sys w = Running jd"
    from exclusive_row[OF ex this] obtain j where
      "j \<in> set (store sys)" "job_id j = job_id jd" "state j = Processing" by blast
    then show "\<exists>j. get_job (store sys) (job_id jd) = Some j \<and> state j = Processing"
      using get_job_unique[OF d, of j] by auto
  qed
  have 3: "\<forall>i j t. get_job (store sys) i = Some j \<and> state j = Processing \<longrightarrow>
            acquire_job (store sys) i t = (store sys, False)"
    using acquire_job_processing[OF d] by blast
  have 4: "\<forall>i t1 t2. \<not> (snd (acquire_job (store sys) i t1) \<and>
            snd (acquire_job (fst (acquire_job (store sys) i t1)) i t2))"
    using acquire_job_twice[OF d] by blast
  from 1 2 3 4 show ?thesis by blast
qed

text \<open>
  C2, at a race: two workers read the same enqueued job and both try to acquire it at
  00:00:00.5001. The first runs it, the second is back to idle, and a further attempt
  fails.
\<close>

theorem acquisition_exclusive_witness:
  "workers (run_actions example_race init_system) 1 = Running
     \<lparr>job_id = ''test4'', command = ''nonexistentcommand12345'', state = Pending, attempts = 0,
       max_retries = 2, next_retry_at = None, created_at = ''2024-01-01T00:00:00.250000Z'',
       updated_at = ''2024-01-01T00:00:00.250000Z'', completed_at = None, error_message = None\<rparr> \<and>
   workers (run_actions example_race init_system) 2 = Idle \<and>
   map state (store (run_actions example_race init_system)) = [Processing] \<and>
   acquire_job (store (run_actions example_race init_system)) ''test4'' (example_time 500100) =
     (store (run_actions example_race init_system), False)"
proof -
  have "get_job (store (run_actions example_race init_system)) ''test4'' \<noteq> None"
    by (simp add: example_race_store get_job_def)
  then obtain j where j: "get_job (store (run_actions example_race init_system)) ''test4'' = Some j"
    by blast
  then have "state j = Processing"
    by (auto simp: example_race_store get_job_def)
  with j acquisition_exclusive[OF refl, of example_race]
  have "acquire_job (store (run_actions example_race init_system)) ''test4'' (example_time 500100) =
     (store (run_actions example_race init_system), False)" by blast
  then show ?thesis
    using example_race_workers by (simp add: example_race_store)
qed

section \<open>One pass of the loop\<close>

lemma sql_limit_subset: "set (sql_limit n xs) \<subseteq> set xs"
  by (auto simp: sql_limit_def dest: in_set_takeD)

lemma get_pending_jobs_ready:
  "j \<in> set (get_pending_jobs s limit t plan) \<Longrightarrow> j \<in> set s \<and> ready_where (utc_text t) j"
  using sql_limit_subset[of limit
      "sort_key created_at (sort_key plan (filter (ready_where (utc_text t)) s))"]
  by (auto simp: get_pending_jobs_def table_order_def Let_def)

lemma picked_ready:
  "get_pending_jobs s limit t plan = j # rest \<Longrightarrow> j \<in> set s \<and> ready_where (utc_text t) j"
  using get_pending_jobs_ready[of j s limit t plan] by simp

lemma acquire_job_get_acquired:
  assumes "distinct (map job_id s)" "j \<in> set s" "snd (acquire_job s (job_id j) t)"
  shows "get_job (fst (acquire_job s (job_id j) t)) (job_id j) = Some (j\<lparr>state := Processing\<rparr>)"
  using acquire_job_cases[OF assms(1), of "job_id j" t] get_job_unique[OF assms(1,2)] assms(3)
  by (auto split: if_splits)

lemma update_job_to_dict_eq:
  assumes "distinct (map job_id s)" "job_id j' = i"
  shows "update_job s i (to_dict j') t =
     Inr (map (\<lambda>j. if job_id j = i then j'\<lparr>updated_at := utc_text t\<rparr> else j) s,
          get_job (map (\<lambda>j. if job_id j = i then j'\<lparr>updated_at := utc_text t\<rparr> else j) s) i)"
proof -
  have "map job_id (map (\<lambda>j. if job_id j = i then j'\<lparr>updated_at := utc_text t\<rparr> else j) s) = map job_id s"
    using assms(2) by (induction s) auto
  then have "distinct (map job_id (map (\<lambda>j. if job_id j = i then j'\<lparr>updated_at := utc_text t\<rparr> else j) s))"
    using assms(1) by (simp only:)
  then show ?thesis
    unfolding update_job_def Let_def set_columns_to_dict by (simp only: if_True)
qed

lemma get_job_map_replace:
  "job_id j' = i \<Longrightarrow> get_job s i = Some j0 \<Longrightarrow>
     get_job (map (\<lambda>j. if job_id j = i then j' else j) s) i = Some j'"
  by (induction s) (auto simp: get_job_def split: if_splits)

lemma get_job_map_other:
  "job_id j' = i \<Longrightarrow> k \<noteq> i \<Longrightarrow>
     get_job (map (\<lambda>j. if job_id j = i then j' else j) s) k = get_job s k"
  by (induction s) (auto simp: get_job_def split: if_splits)

lemma record_outcome_success:
  assumes "distinct (map job_id s)" "success out"
  shows "record_outcome s jd out bb tm tu =
     Recorded (map (\<lambda>j. if job_id j = job_id jd
                         then (mark_completed jd tm)\<lparr>updated_at := utc_text tu\<rparr> else j) s)"
  using update_job_to_dict_eq[OF assms(1), of "mark_completed jd tm" "job_id jd" tu] assms(2)
  by (simp add: record_outcome_def mark_completed_def)

lemma mark_failed_job_id: "mark_failed jd m bb tm = Inr j' \<Longrightarrow> job_id j' = job_id jd"
  using mark_for_retry_Inr[of "jd\<lparr>error_message := m\<rparr>" bb tm j'] by (simp add: mark_failed_def)

lemma record_outcome_failure:
  assumes "distinct (map job_id s)" "\<not> success out" "mark_failed jd (error_msg out) bb tm = Inr j'"
  shows "record_outcome s jd out bb tm tu =
     Recorded (map (\<lambda>j. if job_id j = job_id jd then j'\<lparr>updated_at := utc_text tu\<rparr> else j) s)"
  using update_job_to_dict_eq[OF assms(1) mark_failed_job_id[OF assms(3)], of tu] assms(2,3)
  by (simp add: record_outcome_def)

lemma record_outcome_overflow:
  "\<not> success out \<Longrightarrow> mark_failed jd (error_msg out) bb tm = Inl e \<Longrightarrow>
     record_outcome s jd out bb tm tu = Raised s e"
  by (simp add: record_outcome_def)

lemma worker_iteration_picked:
  assumes "get_pending_jobs s 1 tp plan = jd # rest" "snd (acquire_job s (job_id jd) ta)"
    "execute jd b None = Some out"
  shows "worker_iteration s b bb tp ta tm tu plan =
     record_outcome (fst (acquire_job s (job_id jd) ta)) jd out bb tm tu"
proof -
  obtain s1 where "acquire_job s (job_id jd) ta = (s1, True)"
    using assms(2) by (cases "acquire_job s (job_id jd) ta") auto
  then show ?thesis using assms(1,3) by (simp add: worker_iteration_def)
qed

lemma pass_success:
  assumes d: "distinct (map job_id s)"
    and pick: "get_pending_jobs s 1 tp plan = jd # rest"
    and acq: "snd (acquire_job s (job_id jd) ta)"
    and ex: "execute jd b None = Some out" and ok: "success out"
  shows "\<exists>s'. worker_iteration s b bb tp ta tm tu plan = Recorded s' \<and>
           get_job s' (job_id jd) = Some ((mark_completed jd tm)\<lparr>updated_at := utc_text tu\<rparr>)"
proof -
  let ?s1 = "fst (acquire_job s (job_id jd) ta)"
  have d1: "distinct (map job_id ?s1)" using d by simp
  have mem: "jd \<in> set s" using picked_ready[OF pick] by simp
  have g: "get_job ?s1 (job_id jd) = Some (jd\<lparr>state := Processing\<rparr>)"
    using acquire_job_get_acquired[OF d mem acq] .
  have "job_id ((mark_completed jd tm)\<lparr>updated_at := utc_text tu\<rparr>) = job_id jd"
    by (simp add: mark_completed_def)
  from get_job_map_replace[OF this g]
  show ?thesis
    using worker_iteration_picked[OF pick acq ex, of bb tm tu] record_outcome_success[OF d1 ok, of jd bb tm tu]
    by simp
qed

lemma pass_failure:
  assumes d: "distinct (map job_id s)"
    and pick: "get_pending_jobs s 1 tp plan = jd # rest"
    and acq: "snd (acquire_job s (job_id jd) ta)"
    and ex: "execute jd b None = Some out" and ko: "\<not> success out"
    and mf: "mark_failed jd (error_msg out) bb tm = Inr j'"
  shows "\<exists>s'. worker_iteration s b bb tp ta tm tu plan = Recorded s' \<and>
           get_job s' (job_id jd) = Some (j'\<lparr>updated_at := utc_text tu\<rparr>)"
proof -
  let ?s1 = "fst (acquire_job s (job_id jd) ta)"
  have d1: "distinct (map job_id ?s1)" using d by simp
  have mem: "jd \<in> set s" using picked_ready[OF pick] by simp
  have g: "get_job ?s1 (job_id jd) = Some (jd\<lparr>state := Processing\<rparr>)"
    using acquire_job_get_acquired[OF d mem acq] .
  have "job_id (j'\<lparr>updated_at := utc_text tu\<rparr>) = job_id jd"
    using mark_failed_job_id[OF mf] by simp
  from get_job_map_replace[OF this g]
  show ?thesis
    using worker_iteration_picked[OF pick acq ex, of bb tm tu]
      record_outcome_failure[OF d1 ko mf, of tu]
    by simp
qed

section \<open>Retries and the dead letter queue\<close>

lemma acquire_job_keeps_row:
  "j \<in> set s \<Longrightarrow> state j \<noteq> Pending \<Longrightarrow> state j \<noteq> Failed \<Longrightarrow>
     j \<in> set (fst (acquire_job s i t))"
  by (force simp: acquire_job_def Let_def acquire_where_def ready_where_def)

lemma reset_keeps_other:
  "j \<in> set s \<Longrightarrow> job_id j \<noteq> i \<Longrightarrow> j \<in> set (fst (reset_job_for_retry s i t))"
  by (force simp: reset_job_for_retry_def Let_def)

lemma dead_stays:
  assumes ex: "exclusive sys" and mem: "jd \<in> set (store sys)" and dead: "state jd = Dead"
    and nr: "\<forall>t. a \<noteq> Reset (job_id jd) t"
  shows "jd \<in> set (store (step a sys))"
proof (cases a)
  case (Poll w t plan)
  then show ?thesis using mem by (simp split: worker.splits list.splits)
next
  case (Acquire w t)
  have "jd \<in> set (fst (acquire_job (store sys) i t))" for i
    using acquire_job_keeps_row[OF mem] dead by simp
  then show ?thesis using Acquire mem
    by (auto split: worker.splits prod.splits) (metis fst_conv)
next
  case (Finish w b bb tm tu)
  show ?thesis
  proof (cases "workers sys w")
    case (Running job_data)
    from exclusive_row[OF ex Running] obtain j where
      j: "j \<in> set (store sys)" "job_id j = job_id job_data" "state j = Processing" by blast
    have ne: "job_id jd \<noteq> job_id job_data"
    proof
      assume "job_id jd = job_id job_data"
      then have "jd = j"
        using distinct_ids_unique[OF exclusive_distinct[OF ex] mem j(1)] j(2) by simp
      with dead j(3) show False by simp
    qed
    show ?thesis
    proof (cases "execute job_data b None")
      case None
      then show ?thesis using Finish Running mem by simp
    next
      case (Some out)
      show ?thesis
      proof (cases "record_outcome (store sys) job_data out bb tm tu")
        case (Recorded s')
        from record_outcome_Recorded[OF Recorded] obtain j' where
          "s' = map (\<lambda>j. if job_id j = job_id job_data then j'\<lparr>updated_at := utc_text tu\<rparr> else j)
                  (store sys)" by blast
        then have "jd \<in> set s'" using mem ne by force
        then show ?thesis using Finish Running Some Recorded by simp
      qed (use Finish Running Some mem in auto)
    qed
  qed (use Finish mem in auto)
next
  case (Stop w)
  then show ?thesis using mem by simp
next
  case (Enqueue i cmd mr t)
  then show ?thesis using mem
    by (auto simp: create_job_def Let_def split: sum.splits if_splits)
next
  case (Reset i t)
  then have "job_id jd \<noteq> i" using nr by auto
  then show ?thesis using Reset reset_keeps_other[OF mem] by simp
qed

lemma mark_failed_dead:
  "int (attempts j) + 1 \<ge> max_retries j \<Longrightarrow>
     mark_failed j m bb tm =
       Inr (j\<lparr>error_message := m, attempts := attempts j + 1, state := Dead, next_retry_at := None\<rparr>)"
  by (simp add: mark_failed_def mark_for_retry_def should_retry_def)

lemma mark_failed_retry:
  "int (attempts j) + 1 < max_retries j \<Longrightarrow>
     calculate_next_retry (j\<lparr>error_message := m, attempts := attempts j + 1\<rparr>) bb tm = Inr r \<Longrightarrow>
     mark_failed j m bb tm =
       Inr (j\<lparr>error_message := m, attempts := attempts j + 1, state := Failed, next_retry_at := Some r\<rparr>)"
  by (simp add: mark_failed_def mark_for_retry_def should_retry_def)

lemma example_pass3_eq: "example_pass3 = No_jobs (stored example_pass2)"
  by (simp add: example_pass3_def example_pass2_eq worker_iteration_def get_pending_jobs_def table_order_def
      sql_limit_def ready_where_def Let_def)

lemma example_dead_run_store:
  "store (run_actions example_dead_run init_system) =
     [\<lparr>job_id = ''test4'', command = ''nonexistentcommand12345'', state = Dead, attempts = 2,
       max_retries = 2, next_retry_at = None,
       created_at = ''2024-01-01T00:00:00.250000Z'',
       updated_at = ''2024-01-01T00:00:03.200100Z'', completed_at = None,
       error_message = Some ''/bin/sh: 1: nonexistentcommand12345: not found''\<rparr>]"
  by (simp add: example_dead_run_def init_system_def create_job_def get_pending_jobs_def table_order_def
      sql_limit_def ready_where_def acquire_job_def acquire_where_def example_texts
      example_failure_def execute_def record_outcome_def mark_failed_def mark_for_retry_def
      should_retry_def example_next_retry update_job_def to_dict_def set_columns_def get_job_def
      Let_def)

lemma example_execute_failure:
  "execute j example_failure None =
     Some (Execution_failure ''/bin/sh: 1: nonexistentcommand12345: not found'')"
  by (simp add: execute_def example_failure_def)

lemma pass_overflow:
  assumes pick: "get_pending_jobs s 1 tp plan = jd # rest"
    and acq: "snd (acquire_job s (job_id jd) ta)"
    and ex: "execute jd b None = Some out" and ko: "\<not> success out"
    and mf: "mark_failed jd (error_msg out) bb tm = Inl e"
  shows "worker_iteration s b bb tp ta tm tu plan = Raised (fst (acquire_job s (job_id jd) ta)) e"
  using worker_iteration_picked[OF pick acq ex, of bb tm tu] record_outcome_overflow[OF ko mf]
  by simp

lemma mark_failed_overflow:
  "int (attempts j) + 1 < max_retries j \<Longrightarrow>
     calculate_next_retry (j\<lparr>error_message := m, attempts := attempts j + 1\<rparr>) bb tm = Inl e \<Longrightarrow>
     mark_failed j m bb tm = Inl e"
  by (simp add: mark_failed_def mark_for_retry_def should_retry_def)

lemma example_dead_run_worker2:
  "workers (run_actions example_dead_run init_system) 2 = Polled
     \<lparr>job_id = ''test4'', command = ''nonexistentcommand12345'', state = Failed,
       attempts = 1, max_retries = 2, next_retry_at = Some ''2024-01-01T00:00:02.700000Z'',
       created_at = ''2024-01-01T00:00:00.250000Z'',
       updated_at = ''2024-01-01T00:00:00.700100Z'', completed_at = None,
       error_message = Some ''/bin/sh: 1: nonexistentcommand12345: not found''\<rparr>"
  by (simp add: example_dead_run_def init_system_def create_job_def get_pending_jobs_def
      table_order_def
      sql_limit_def ready_where_def acquire_job_def acquire_where_def example_texts
      example_failure_def execute_def record_outcome_def mark_failed_def mark_for_retry_def
      should_retry_def example_next_retry update_job_def to_dict_def set_columns_def get_job_def
      Let_def)

lemma example_stale_run_store:
  "store (run_actions example_stale_run init_system) =
     [\<lparr>job_id = ''test4'', command = ''nonexistentcommand12345'', state = Failed,
       attempts = 1, max_retries = 2, next_retry_at = Some ''2024-01-01T00:00:05.200000Z'',
       created_at = ''2024-01-01T00:00:00.250000Z'',
       updated_at = ''2024-01-01T00:00:03.200100Z'', completed_at = None,
       error_message = Some ''/bin/sh: 1: nonexistentcommand12345: not found''\<rparr>]"
proof -
  have nr: "\<And>j. attempts j = 1 \<Longrightarrow>
     calculate_next_retry j 2 (example_time 3200000) = Inr ''2024-01-01T00:00:05.200000Z''"
  proof -
    fix j :: job assume "attempts j = 1"
    moreover have "nat (int (example_time 3200000) + 2000000) = example_time 5200000"
      by (simp add: example_time_def)
    moreover have "utc_text (example_time 5200000) = ''2024-01-01T00:00:05.200000Z''"
      by (simp add: example_time_def utc_text_def isoformat_def ord2ymd_example zfill_eval Let_def)
    ultimately show "calculate_next_retry j 2 (example_time 3200000) = Inr ''2024-01-01T00:00:05.200000Z''"
      by (simp add: calculate_next_retry_def timedelta_seconds_def datetime_add_def MAX_DATETIME_def
          utc_text_def Let_def example_time_def[of 3200000])
  qed
  show ?thesis
    by (simp add: example_stale_run_def init_system_def create_job_def get_pending_jobs_def
      table_order_def
      sql_limit_def ready_where_def acquire_job_def acquire_where_def example_texts
      example_failure_def execute_def record_outcome_def mark_failed_def mark_for_retry_def
      should_retry_def example_next_retry nr update_job_def to_dict_def set_columns_def get_job_def
      Let_def)
qed

text \<open>
  With more than one worker a pass can run a job from a row it read before another
  worker's outcome was written. In this run two workers read the enqueued job, the
  second runs it and fails, and the first acquires it at 00:00:03 with the row it
  read at the start: after two failing executions the job is \<^verbatim>\<open>failed\<close> with
  \<^verbatim>\<open>attempts\<close> 1, as lemma \<open>example_stale_run_store\<close> shows. The statement below is
  therefore about a pass that reads the table itself, as \<open>worker_iteration\<close> does.
\<close>

text \<open>
  C3, as the code has it. A pass of the loop reads the table, picks job \<open>j\<close> with
  \<^verbatim>\<open>max_retries\<close> 2, acquires it, and its command fails. If \<open>j\<close> had no attempt before,
  the pass leaves it \<^verbatim>\<open>failed\<close> with \<^verbatim>\<open>attempts\<close> 1 and the retry time the backoff computed;
  when that time cannot be computed the pass raises instead and leaves the job
  \<^verbatim>\<open>processing\<close>. If \<open>j\<close> had one attempt, the pass leaves it \<^verbatim>\<open>dead\<close> with \<^verbatim>\<open>attempts\<close> 2
  and no retry time. So the job is dead after exactly two executions, not three:
  \<^verbatim>\<open>max_retries\<close> bounds the attempts, not the retries after the first. And in every
  reachable state of the interleaved system a \<^verbatim>\<open>dead\<close> row is left as it is by every
  step except the reset of its own id.
\<close>

theorem always_failing_job_dead_after_two:
  assumes "distinct (map job_id s)"
    and "get_pending_jobs s 1 tp plan = j # rest"
    and "snd (acquire_job s (job_id j) ta)"
    and "execute j b None = Some out" and "\<not> success out"
    and "max_retries j = 2"
  shows "(attempts j = 0 \<longrightarrow>
            (case calculate_next_retry (j\<lparr>error_message := error_msg out, attempts := 1\<rparr>) bb tm of
               Inr r \<Rightarrow>
                 (\<exists>s'. worker_iteration s b bb tp ta tm tu plan = Recorded s' \<and>
                    get_job s' (job_id j) =
                      Some (j\<lparr>error_message := error_msg out, attempts := 1, state := Failed,
                              next_retry_at := Some r, updated_at := utc_text tu\<rparr>))
             | Inl e \<Rightarrow>
                 worker_iteration s b bb tp ta tm tu plan =
                   Raised (fst (acquire_job s (job_id j) ta)) e \<and>
                 get_job (fst (acquire_job s (job_id j) ta)) (job_id j) =
                   Some (j\<lparr>state := Processing\<rparr>))) \<and>
         (attempts j = 1 \<longrightarrow>
            (\<exists>s'. worker_iteration s b bb tp ta tm tu plan = Recorded s' \<and>
               get_job s' (job_id j) =
                 Some (j\<lparr>error_message := error_msg out, attempts := 2, state := Dead,
                         next_retry_at := None, updated_at := utc_text tu\<rparr>))) \<and>
         (\<forall>as a d. d \<in> set (store (run_actions as init_system)) \<and> state d = Dead \<and>
            (\<forall>t. a \<noteq> Reset (job_id d) t) \<longrightarrow>
            d \<in> set (store (step a (run_actions as init_system))))"
proof (intro conjI impI allI)
  assume a: "attempts j = 0"
  show "case calculate_next_retry (j\<lparr>error_message := error_msg out, attempts := 1\<rparr>) bb tm of
               Inr r \<Rightarrow>
                 (\<exists>s'. worker_iteration s b bb tp ta tm tu plan = Recorded s' \<and>
                    get_job s' (job_id j) =
                      Some (j\<lparr>error_message := error_msg out, attempts := 1, state := Failed,
                              next_retry_at := Some r, updated_at := utc_text tu\<rparr>))
             | Inl e \<Rightarrow>
                 worker_iteration s b bb tp ta tm tu plan =
                   Raised (fst (acquire_job s (job_id j) ta)) e \<and>
                 get_job (fst (acquire_job s (job_id j) ta)) (job_id j) =
                   Some (j\<lparr>state := Processing\<rparr>)"
  proof (cases "calculate_next_retry (j\<lparr>error_message := error_msg out, attempts := 1\<rparr>) bb tm")
    case (Inr r)
    then have "mark_failed j (error_msg out) bb tm =
        Inr (j\<lparr>error_message := error_msg out, attempts := 1, state := Failed,
               next_retry_at := Some r\<rparr>)"
      using mark_failed_retry[of j "error_msg out" bb tm r] assms(6) a by simp
    from pass_failure[OF assms(1-5) this, of tu] Inr show ?thesis by simp
  next
    case (Inl e)
    then have "mark_failed j (error_msg out) bb tm = Inl e"
      using mark_failed_overflow[of j "error_msg out" bb tm e] assms(6) a by simp
    from pass_overflow[OF assms(2-5) this, of tu]
      acquire_job_get_acquired[OF assms(1) _ assms(3)] picked_ready[OF assms(2)] Inl
    show ?thesis by simp
  qed
next
  assume a: "attempts j = 1"
  then have "mark_failed j (error_msg out) bb tm =
      Inr (j\<lparr>error_message := error_msg out, attempts := 2, state := Dead, next_retry_at := None\<rparr>)"
    using mark_failed_dead[of j "error_msg out" bb tm] assms(6) by simp
  from pass_failure[OF assms(1-5) this, of tu]
  show "\<exists>s'. worker_iteration s b bb tp ta tm tu plan = Recorded s' \<and>
               get_job s' (job_id j) =
                 Some (j\<lparr>error_message := error_msg out, attempts := 2, state := Dead,
                         next_retry_at := None, updated_at := utc_text tu\<rparr>)" by simp
next
  fix as a d
  assume "d \<in> set (store (run_actions as init_system)) \<and> state d = Dead \<and>
            (\<forall>t. a \<noteq> Reset (job_id d) t)"
  then show "d \<in> set (store (step a (run_actions as init_system)))"
    using dead_stays[OF exclusive_run_init, of d as a] by simp
qed

text \<open>
  C3, in the scenario: the first pass leaves the job \<^verbatim>\<open>failed\<close>, the second \<^verbatim>\<open>dead\<close>; a
  second worker that read the job while it was \<^verbatim>\<open>failed\<close> tries to acquire it at
  00:00:10, is refused, and the dead row stays; and with \<^verbatim>\<open>backoff_base\<close> 10^15 the
  first pass raises \<^verbatim>\<open>OverflowError\<close> and leaves the job \<^verbatim>\<open>processing\<close>.
\<close>

theorem always_failing_job_dead_after_two_witness:
  "get_job (stored example_pass1) ''test4'' = Some
     \<lparr>job_id = ''test4'', command = ''nonexistentcommand12345'', state = Failed, attempts = 1,
       max_retries = 2, next_retry_at = Some ''2024-01-01T00:00:02.700000Z'',
       created_at = ''2024-01-01T00:00:00.250000Z'',
       updated_at = ''2024-01-01T00:00:00.700100Z'', completed_at = None,
       error_message = Some ''/bin/sh: 1: nonexistentcommand12345: not found''\<rparr> \<and>
   get_job (stored example_pass2) ''test4'' = Some
     \<lparr>job_id = ''test4'', command = ''nonexistentcommand12345'', state = Dead, attempts = 2,
       max_retries = 2, next_retry_at = None,
       created_at = ''2024-01-01T00:00:00.250000Z'',
       updated_at = ''2024-01-01T00:00:03.200100Z'', completed_at = None,
       error_message = Some ''/bin/sh: 1: nonexistentcommand12345: not found''\<rparr> \<and>
   \<lparr>job_id = ''test4'', command = ''nonexistentcommand12345'', state = Dead, attempts = 2,
       max_retries = 2, next_retry_at = None,
       created_at = ''2024-01-01T00:00:00.250000Z'',
       updated_at = ''2024-01-01T00:00:03.200100Z'', completed_at = None,
       error_message = Some ''/bin/sh: 1: nonexistentcommand12345: not found''\<rparr>
     \<in> set (store (step (Acquire 2 (example_time 10000000))
                 (run_actions example_dead_run init_system))) \<and>
   workers (step (Acquire 2 (example_time 10000000))
     (run_actions example_dead_run init_system)) 2 = Idle \<and>
   worker_iteration example_enqueued example_failure 1000000000000000 (example_time 500000)
       (example_time 500100) (example_time 700000) (example_time 700100) table_order =
     Raised
       [\<lparr>job_id = ''test4'', command = ''nonexistentcommand12345'', state = Processing,
          attempts = 0, max_retries = 2, next_retry_at = None,
          created_at = ''2024-01-01T00:00:00.250000Z'',
          updated_at = ''2024-01-01T00:00:00.250000Z'', completed_at = None,
          error_message = None\<rparr>]
       OverflowError"
proof -
  let ?j0 = "\<lparr>job_id = ''test4'', command = ''nonexistentcommand12345'', state = Pending,
       attempts = 0, max_retries = 2, next_retry_at = None,
       created_at = ''2024-01-01T00:00:00.250000Z'',
       updated_at = ''2024-01-01T00:00:00.250000Z'', completed_at = None, error_message = None\<rparr>"
  let ?j1 = "\<lparr>job_id = ''test4'', command = ''nonexistentcommand12345'', state = Failed,
       attempts = 1, max_retries = 2, next_retry_at = Some ''2024-01-01T00:00:02.700000Z'',
       created_at = ''2024-01-01T00:00:00.250000Z'',
       updated_at = ''2024-01-01T00:00:00.700100Z'', completed_at = None,
       error_message = Some ''/bin/sh: 1: nonexistentcommand12345: not found''\<rparr>"
  let ?j2 = "\<lparr>job_id = ''test4'', command = ''nonexistentcommand12345'', state = Dead, attempts = 2,
       max_retries = 2, next_retry_at = None,
       created_at = ''2024-01-01T00:00:00.250000Z'',
       updated_at = ''2024-01-01T00:00:03.200100Z'', completed_at = None,
       error_message = Some ''/bin/sh: 1: nonexistentcommand12345: not found''\<rparr>"
  let ?out = "Execution_failure ''/bin/sh: 1: nonexistentcommand12345: not found''"
  have d0: "distinct (map job_id example_enqueued)" by (simp add: example_enqueued_eq)
  have p0: "get_pending_jobs example_enqueued 1 (example_time 500000) table_order = ?j0 # []"
    by (simp add: example_enqueued_eq get_pending_jobs_def table_order_def sql_limit_def ready_where_def Let_def)
  have a0: "snd (acquire_job example_enqueued (job_id ?j0) (example_time 500100))"
    by (simp add: example_enqueued_eq acquire_job_def acquire_where_def ready_where_def Let_def)
  have c0: "calculate_next_retry (?j0\<lparr>error_message := error_msg ?out, attempts := 1\<rparr>) 2
              (example_time 700000) = Inr ''2024-01-01T00:00:02.700000Z''"
    by (simp add: example_next_retry)
  have d1: "distinct (map job_id (stored example_pass1))" by (simp add: example_pass1_eq)
  have p1: "get_pending_jobs (stored example_pass1) 1 (example_time 3000000) table_order = ?j1 # []"
    by (simp add: example_pass1_eq get_pending_jobs_def table_order_def sql_limit_def ready_where_def
        example_texts Let_def)
  have a1: "snd (acquire_job (stored example_pass1) (job_id ?j1) (example_time 3000100))"
    by (simp add: example_pass1_eq acquire_job_def acquire_where_def ready_where_def
        example_texts Let_def)
  have "\<exists>s'. worker_iteration example_enqueued example_failure 2 (example_time 500000)
            (example_time 500100) (example_time 700000) (example_time 700100) table_order = Recorded s' \<and>
          get_job s' ''test4'' = Some ?j1"
    using always_failing_job_dead_after_two[where bb = 2
        and tm = "example_time 700000" and tu = "example_time 700100",
        OF d0 p0 a0 example_execute_failure] c0
    by (simp add: example_texts)
  then have 1: "get_job (stored example_pass1) ''test4'' = Some ?j1"
    unfolding example_pass1_def by auto
  have "\<exists>s'. worker_iteration (stored example_pass1) example_failure 2 (example_time 3000000)
            (example_time 3000100) (example_time 3200000) (example_time 3200100) table_order = Recorded s' \<and>
          get_job s' ''test4'' = Some ?j2"
    using always_failing_job_dead_after_two[where bb = 2
        and tm = "example_time 3200000" and tu = "example_time 3200100",
        OF d1 p1 a1 example_execute_failure]
    by (simp add: example_texts)
  then have 2: "get_job (stored example_pass2) ''test4'' = Some ?j2"
    unfolding example_pass2_def by auto
  have mem: "?j2 \<in> set (store (run_actions example_dead_run init_system))"
    by (simp add: example_dead_run_store)
  have perm: "\<forall>as a d. d \<in> set (store (run_actions as init_system)) \<and> state d = Dead \<and>
            (\<forall>t. a \<noteq> Reset (job_id d) t) \<longrightarrow>
            d \<in> set (store (step a (run_actions as init_system)))"
  proof -
    have fl: "\<not> success ?out" by simp
    have mr: "max_retries ?j0 = 2" by simp
    show ?thesis
      by (rule always_failing_job_dead_after_two[OF d0 p0 a0 example_execute_failure fl mr,
            THEN conjunct2, THEN conjunct2])
  qed
  have 3: "?j2 \<in> set (store (step (Acquire 2 (example_time 10000000))
                 (run_actions example_dead_run init_system)))"
  proof -
    have "state ?j2 = Dead" by simp
    moreover have "\<forall>t. Acquire 2 (example_time 10000000) \<noteq> Reset (job_id ?j2) t" by simp
    ultimately show ?thesis using perm mem by blast
  qed
  have 4: "workers (step (Acquire 2 (example_time 10000000))
     (run_actions example_dead_run init_system)) 2 = Idle"
    by (simp add: example_dead_run_worker2 example_dead_run_store acquire_job_def acquire_where_def
        ready_where_def Let_def)
  have c5: "calculate_next_retry (?j0\<lparr>error_message := error_msg ?out, attempts := 1\<rparr>)
              1000000000000000 (example_time 700000) = Inl OverflowError"
    by (simp add: calculate_next_retry_def timedelta_seconds_def Let_def)
  have 5: "worker_iteration example_enqueued example_failure 1000000000000000 (example_time 500000)
       (example_time 500100) (example_time 700000) (example_time 700100) table_order =
     Raised
       [\<lparr>job_id = ''test4'', command = ''nonexistentcommand12345'', state = Processing,
          attempts = 0, max_retries = 2, next_retry_at = None,
          created_at = ''2024-01-01T00:00:00.250000Z'',
          updated_at = ''2024-01-01T00:00:00.250000Z'', completed_at = None,
          error_message = None\<rparr>]
       OverflowError"
    using always_failing_job_dead_after_two[where bb = 1000000000000000
        and tm = "example_time 700000" and tu = "example_time 700100",
        OF d0 p0 a0 example_execute_failure] c5
    by (simp add: example_enqueued_eq acquire_job_def acquire_where_def ready_where_def Let_def)
  from 1 2 3 4 5 show ?thesis by simp
qed

text \<open>
  C3 as the specification states it (dead after exactly three executions) fails in
  the scenario: the second failing pass already makes the job \<^verbatim>\<open>dead\<close>, and a third
  pass finds no job to run.
\<close>

theorem dead_after_three_attempts_counterexample:
  "example_pass1 = Recorded
     [\<lparr>job_id = ''test4'', command = ''nonexistentcommand12345'', state = Failed, attempts = 1,
       max_retries = 2, next_retry_at = Some ''2024-01-01T00:00:02.700000Z'',
       created_at = ''2024-01-01T00:00:00.250000Z'',
       updated_at = ''2024-01-01T00:00:00.700100Z'', completed_at = None,
       error_message = Some ''/bin/sh: 1: nonexistentcommand12345: not found''\<rparr>] \<and>
   example_pass2 = Recorded
     [\<lparr>job_id = ''test4'', command = ''nonexistentcommand12345'', state = Dead, attempts = 2,
       max_retries = 2, next_retry_at = None,
       created_at = ''2024-01-01T00:00:00.250000Z'',
       updated_at = ''2024-01-01T00:00:03.200100Z'', completed_at = None,
       error_message = Some ''/bin/sh: 1: nonexistentcommand12345: not found''\<rparr>] \<and>
   example_pass3 = No_jobs (stored example_pass2)"
  by (simp add: example_pass1_eq example_pass2_eq example_pass3_eq)

section \<open>A successful pass\<close>

lemma example_echo_enqueued_eq:
  "example_echo_enqueued =
     [\<lparr>job_id = ''t1'', command = ''echo hi'', state = Pending, attempts = 0,
       max_retries = 3, next_retry_at = None, created_at = ''2024-01-01T00:00:00.250000Z'',
       updated_at = ''2024-01-01T00:00:00.250000Z'', completed_at = None, error_message = None\<rparr>]"
  by (simp add: example_echo_enqueued_def create_job_def example_texts Let_def)

lemma example_echo_pass_eq:
  "example_echo_pass = Recorded
     [\<lparr>job_id = ''t1'', command = ''echo hi'', state = Completed, attempts = 0,
       max_retries = 3, next_retry_at = None, created_at = ''2024-01-01T00:00:00.250000Z'',
       updated_at = ''2024-01-01T00:00:00.700100Z'',
       completed_at = Some ''2024-01-01T00:00:00.700000Z'', error_message = None\<rparr>]"
  by (simp add: example_echo_pass_def example_echo_enqueued_eq worker_iteration_def
      get_pending_jobs_def table_order_def sql_limit_def ready_where_def acquire_job_def acquire_where_def
      example_texts example_success_def execute_def record_outcome_def mark_completed_def
      update_job_def to_dict_def set_columns_def get_job_def Let_def)

text \<open>
  C4, as the code has it. A pass of the loop picks a job that is \<^verbatim>\<open>pending\<close> as the
  enqueue operation left it (no retry time), and its command exits with code zero.
  Then the pass writes the outcome: the job is \<^verbatim>\<open>completed\<close>, \<^verbatim>\<open>completed_at\<close> is the
  time of the marking, and \<^verbatim>\<open>attempts\<close> is what it was (0 for a job just enqueued):
  only a failure counts as an attempt.
\<close>

theorem successful_pass_completes:
  assumes "distinct (map job_id s)"
    and "get_pending_jobs s 1 tp plan = j # rest"
    and "state j = Pending" and "next_retry_at j = None"
    and "execute j b None = Some out" and "success out"
  shows "\<exists>s' j'. worker_iteration s b bb tp ta tm tu plan = Recorded s' \<and>
           get_job s' (job_id j) = Some j' \<and>
           j' = j\<lparr>state := Completed, completed_at := Some (utc_text tm),
                  updated_at := utc_text tu\<rparr> \<and>
           state j' = Completed \<and> completed_at j' = Some (utc_text tm) \<and>
           attempts j' = attempts j"
proof -
  have mem: "j \<in> set s" using picked_ready[OF assms(2)] by simp
  have "acquire_where (job_id j) (utc_text ta) j"
    using assms(3,4) by (simp add: acquire_where_def ready_where_def)
  then have acq: "snd (acquire_job s (job_id j) ta)"
    using mem acquire_job_success[of s "job_id j" ta] by blast
  from pass_success[OF assms(1,2) acq assms(5,6), of bb tm tu]
  show ?thesis by (auto simp: mark_completed_def)
qed

text \<open>C4, in the scenario of the specification: job \<^verbatim>\<open>t1\<close>, command \<^verbatim>\<open>echo hi\<close>.\<close>

theorem successful_pass_completes_witness:
  "get_job (stored example_echo_pass) ''t1'' = Some
     \<lparr>job_id = ''t1'', command = ''echo hi'', state = Completed, attempts = 0,
       max_retries = 3, next_retry_at = None, created_at = ''2024-01-01T00:00:00.250000Z'',
       updated_at = ''2024-01-01T00:00:00.700100Z'',
       completed_at = Some ''2024-01-01T00:00:00.700000Z'', error_message = None\<rparr>"
proof -
  let ?j0 = "\<lparr>job_id = ''t1'', command = ''echo hi'', state = Pending, attempts = 0,
       max_retries = 3, next_retry_at = None, created_at = ''2024-01-01T00:00:00.250000Z'',
       updated_at = ''2024-01-01T00:00:00.250000Z'', completed_at = None, error_message = None\<rparr>"
  have d: "distinct (map job_id example_echo_enqueued)" by (simp add: example_echo_enqueued_eq)
  have p: "get_pending_jobs example_echo_enqueued 1 (example_time 500000) table_order = ?j0 # []"
    by (simp add: example_echo_enqueued_eq get_pending_jobs_def table_order_def sql_limit_def ready_where_def Let_def)
  have st: "state ?j0 = Pending" and nr: "next_retry_at ?j0 = None" by simp_all
  have ex: "execute ?j0 example_success None = Some Succeeded"
    by (simp add: execute_def example_success_def)
  have ok: "success Succeeded" by simp
  have "\<exists>s' j'. worker_iteration example_echo_enqueued example_success 2 (example_time 500000)
            (example_time 500100) (example_time 700000) (example_time 700100) table_order = Recorded s' \<and>
          get_job s' ''t1'' = Some j' \<and>
          j' = ?j0\<lparr>state := Completed, completed_at := Some (utc_text (example_time 700000)),
                  updated_at := utc_text (example_time 700100)\<rparr>"
    using successful_pass_completes[where bb = 2 and ta = "example_time 500100"
        and tm = "example_time 700000" and tu = "example_time 700100", OF d p st nr ex ok]
    by auto
  then show ?thesis
    unfolding example_echo_pass_def by (auto simp: example_texts)
qed

text \<open>
  C4 as the specification states it (\<^verbatim>\<open>attempts == 1\<close> after the pass) fails in that
  scenario: the completed job has \<^verbatim>\<open>attempts\<close> 0.
\<close>

theorem attempts_after_success_counterexample:
  "example_echo_pass = Recorded
     [\<lparr>job_id = ''t1'', command = ''echo hi'', state = Completed, attempts = 0,
       max_retries = 3, next_retry_at = None, created_at = ''2024-01-01T00:00:00.250000Z'',
       updated_at = ''2024-01-01T00:00:00.700100Z'',
       completed_at = Some ''2024-01-01T00:00:00.700000Z'', error_message = None\<rparr>] \<and>
   map attempts (stored example_echo_pass) \<noteq> [1]"
  by (simp add: example_echo_pass_eq)

section \<open>The retry time and the state\<close>

lemma acquire_job_rows:
  "j \<in> set (fst (acquire_job s i t)) \<Longrightarrow> j \<in> set s \<or> state j = Processing"
  by (auto simp: acquire_job_def Let_def)

lemma reset_rows:
  "j \<in> set (fst (reset_job_for_retry s i t)) \<Longrightarrow>
     j \<in> set s \<or> (state j = Pending \<and> next_retry_at j = None)"
  by (auto simp: reset_job_for_retry_def Let_def)

lemma consistent_Acquire:
  "retry_time_consistent s \<Longrightarrow> retry_time_consistent (fst (acquire_job s i t))"
  unfolding retry_time_consistent_def using acquire_job_rows[of _ s i t] by fastforce

lemma consistent_Reset:
  "retry_time_consistent s \<Longrightarrow> retry_time_consistent (fst (reset_job_for_retry s i t))"
  unfolding retry_time_consistent_def using reset_rows[of _ s i t] by fastforce

lemma consistent_create:
  "retry_time_consistent s \<Longrightarrow> create_job s i cmd mr t = Inr (s', r) \<Longrightarrow>
     retry_time_consistent s'"
  by (auto simp: retry_time_consistent_def create_job_def Let_def split: if_splits)

lemma consistent_record:
  assumes "retry_time_consistent s" "record_outcome s jd out bb tm tu = Recorded s'"
  shows "retry_time_consistent s'"
proof -
  from record_outcome_Recorded[OF assms(2)] obtain j' where
    s': "s' = map (\<lambda>j. if job_id j = job_id jd then j'\<lparr>updated_at := utc_text tu\<rparr> else j) s"
    and j': "if success out then j' = mark_completed jd tm
             else mark_failed jd (error_msg out) bb tm = Inr j'" by blast
  have new: "(state j' = Failed \<longrightarrow> next_retry_at j' \<noteq> None) \<and>
             (state j' = Pending \<or> state j' = Dead \<longrightarrow> next_retry_at j' = None)"
  proof (cases "success out")
    case True
    then show ?thesis using j' by (simp add: mark_completed_def)
  next
    case False
    then have "mark_for_retry (jd\<lparr>error_message := error_msg out\<rparr>) bb tm = Inr j'"
      using j' by (simp add: mark_failed_def)
    from mark_for_retry_Inr[OF this] show ?thesis by auto
  qed
  show ?thesis
    unfolding retry_time_consistent_def
  proof
    fix j assume "j \<in> set s'"
    then have "j \<in> set s \<or> j = j'\<lparr>updated_at := utc_text tu\<rparr>" by (auto simp: s')
    then show "(state j = Failed \<longrightarrow> next_retry_at j \<noteq> None) \<and>
               (state j = Pending \<or> state j = Dead \<longrightarrow> next_retry_at j = None)"
      using assms(1) new by (auto simp: retry_time_consistent_def)
  qed
qed

lemma consistent_step:
  assumes "retry_time_consistent (store sys)"
  shows "retry_time_consistent (store (step a sys))"
proof (cases a)
  case (Poll w t plan)
  then show ?thesis using assms by (simp split: worker.splits list.splits)
next
  case (Acquire w t)
  show ?thesis
  proof (cases "workers sys w")
    case (Polled jd)
    then show ?thesis
      using Acquire consistent_Acquire[OF assms, of "job_id jd" t]
      by (simp split: prod.splits) (metis fst_conv)
  qed (use Acquire assms in auto)
next
  case (Finish w b bb tm tu)
  show ?thesis
  proof (cases "workers sys w")
    case (Running jd)
    show ?thesis
    proof (cases "execute jd b None")
      case None
      then show ?thesis using Finish Running assms by simp
    next
      case (Some out)
      show ?thesis
      proof (cases "record_outcome (store sys) jd out bb tm tu")
        case (Recorded s')
        then show ?thesis
          using Finish Running Some consistent_record[OF assms Recorded] by simp
      qed (use Finish Running Some assms in auto)
    qed
  qed (use Finish assms in auto)
next
  case (Stop w)
  then show ?thesis using assms by simp
next
  case (Enqueue i cmd mr t)
  then show ?thesis using assms consistent_create[OF assms]
    by (auto split: sum.splits)
next
  case (Reset i t)
  then show ?thesis using consistent_Reset[OF assms] by simp
qed

lemma consistent_run:
  "retry_time_consistent (store sys) \<Longrightarrow> retry_time_consistent (store (run_actions as sys))"
  by (induction as arbitrary: sys) (simp_all add: consistent_step)

lemma consistent_reachable: "retry_time_consistent (store (run_actions as init_system))"
  by (rule consistent_run) (simp add: retry_time_consistent_def init_system_def)

lemma acquire_job_next_retry_at:
  "map next_retry_at (fst (acquire_job s i t)) = map next_retry_at s"
  by (simp add: acquire_job_def Let_def comp_def)

lemma example_retry_run_store:
  "store (run_actions example_retry_run init_system) =
     [\<lparr>job_id = ''test4'', command = ''nonexistentcommand12345'', state = Processing,
       attempts = 1, max_retries = 2, next_retry_at = Some ''2024-01-01T00:00:02.700000Z'',
       created_at = ''2024-01-01T00:00:00.250000Z'',
       updated_at = ''2024-01-01T00:00:00.700100Z'', completed_at = None,
       error_message = Some ''/bin/sh: 1: nonexistentcommand12345: not found''\<rparr>]"
  by (simp add: example_retry_run_def init_system_def create_job_def get_pending_jobs_def table_order_def
      sql_limit_def ready_where_def acquire_job_def acquire_where_def example_texts
      example_failure_def execute_def record_outcome_def mark_failed_def mark_for_retry_def
      should_retry_def example_next_retry update_job_def to_dict_def set_columns_def get_job_def
      Let_def)

lemma example_retry_success_run_store:
  "store (run_actions example_retry_success_run init_system) =
     [\<lparr>job_id = ''test4'', command = ''nonexistentcommand12345'', state = Completed,
       attempts = 1, max_retries = 2, next_retry_at = Some ''2024-01-01T00:00:02.700000Z'',
       created_at = ''2024-01-01T00:00:00.250000Z'',
       updated_at = ''2024-01-01T00:00:03.200100Z'',
       completed_at = Some ''2024-01-01T00:00:03.200000Z'',
       error_message = Some ''/bin/sh: 1: nonexistentcommand12345: not found''\<rparr>]"
  by (simp add: example_retry_success_run_def example_retry_run_def init_system_def create_job_def
      get_pending_jobs_def table_order_def
      sql_limit_def ready_where_def acquire_job_def acquire_where_def example_texts
      example_failure_def example_success_def execute_def record_outcome_def mark_failed_def
      mark_for_retry_def mark_completed_def
      should_retry_def example_next_retry update_job_def to_dict_def set_columns_def get_job_def
      Let_def)

text \<open>
  C5, as the code has it. In every state the core operations reach (enqueue, the
  steps of the workers, the reset), a \<^verbatim>\<open>failed\<close> job has \<^verbatim>\<open>next_retry_at\<close> set and a
  \<^verbatim>\<open>pending\<close> or \<^verbatim>\<open>dead\<close> job has it null; \<^verbatim>\<open>acquire_job\<close> leaves the \<^verbatim>\<open>next_retry_at\<close> of
  every row as it was, so a job acquired for a retry is \<^verbatim>\<open>processing\<close> with the retry
  time it had.
\<close>

theorem next_retry_at_reachable:
  assumes "sys = run_actions as init_system" and "j \<in> set (store sys)"
  shows "(state j = Failed \<longrightarrow> next_retry_at j \<noteq> None) \<and>
         (state j = Pending \<or> state j = Dead \<longrightarrow> next_retry_at j = None) \<and>
         map next_retry_at (fst (acquire_job (store sys) i t)) = map next_retry_at (store sys)"
  using assms consistent_reachable[of as] acquire_job_next_retry_at[of "store sys" i t]
  by (simp add: retry_time_consistent_def)

text \<open>
  C5, in the scenario: the dead job has no retry time, the failed job has one, and
  an acquisition attempt changes no retry time.
\<close>

theorem next_retry_at_reachable_witness:
  "map (\<lambda>j. (state j, next_retry_at j)) (store (run_actions example_dead_run init_system)) =
     [(Dead, None)] \<and>
   map (\<lambda>j. (state j, next_retry_at j)) (stored example_pass1) =
     [(Failed, Some ''2024-01-01T00:00:02.700000Z'')] \<and>
   map next_retry_at (fst (acquire_job (store (run_actions example_dead_run init_system)) ''test4''
       (example_time 10000000))) = [None]"
proof -
  let ?j2 = "\<lparr>job_id = ''test4'', command = ''nonexistentcommand12345'', state = Dead, attempts = 2,
       max_retries = 2, next_retry_at = None,
       created_at = ''2024-01-01T00:00:00.250000Z'',
       updated_at = ''2024-01-01T00:00:03.200100Z'', completed_at = None,
       error_message = Some ''/bin/sh: 1: nonexistentcommand12345: not found''\<rparr>"
  have mem: "?j2 \<in> set (store (run_actions example_dead_run init_system))"
    by (simp add: example_dead_run_store)
  from next_retry_at_reachable[OF refl mem, of "''test4''" "example_time 10000000"]
  show ?thesis
    by (simp add: example_dead_run_store example_pass1_eq)
qed

text \<open>
  C5 as the specification states it (set if and only if \<^verbatim>\<open>failed\<close>) fails in the
  scenario: the job acquired for its retry is \<^verbatim>\<open>processing\<close> with \<^verbatim>\<open>next_retry_at\<close> set,
  and when the retry succeeds it is \<^verbatim>\<open>completed\<close> with \<^verbatim>\<open>next_retry_at\<close> still set.
\<close>

theorem next_retry_at_iff_failed_counterexample:
  "map (\<lambda>j. (state j, next_retry_at j)) (store (run_actions example_retry_run init_system)) =
     [(Processing, Some ''2024-01-01T00:00:02.700000Z'')] \<and>
   map (\<lambda>j. (state j, next_retry_at j)) (store (run_actions example_retry_success_run init_system)) =
     [(Completed, Some ''2024-01-01T00:00:02.700000Z'')]"
  by (simp add: example_retry_run_store example_retry_success_run_store)

section \<open>The reset of a dead job\<close>

lemma reset_job_unchanged:
  "\<forall>j\<in>set s. \<not> (job_id j = i \<and> state j = Dead) \<Longrightarrow>
     reset_job_for_retry s i t = (s, get_job s i)"
proof -
  assume a: "\<forall>j\<in>set s. \<not> (job_id j = i \<and> state j = Dead)"
  have "map (\<lambda>j. if job_id j = i \<and> state j = Dead
                 then j\<lparr>state := Pending, attempts := 0, next_retry_at := None,
                        error_message := None, updated_at := utc_text t\<rparr>
                 else j) s = s"
    using a by (intro map_idI) auto
  then show ?thesis by (simp add: reset_job_for_retry_def Let_def)
qed

lemma reset_job_get:
  "get_job (fst (reset_job_for_retry s i t)) k =
     map_option (\<lambda>j. if job_id j = i \<and> state j = Dead
                      then j\<lparr>state := Pending, attempts := 0, next_retry_at := None,
                             error_message := None, updated_at := utc_text t\<rparr>
                      else j) (get_job s k)"
  by (simp add: reset_job_for_retry_def Let_def get_job_map)

lemma reset_job_snd:
  "snd (reset_job_for_retry s i t) = get_job (fst (reset_job_for_retry s i t)) i"
  by (simp add: reset_job_for_retry_def Let_def)

lemma reset_job_cases:
  assumes "distinct (map job_id s)"
  shows "case get_job s i of
           None \<Rightarrow> reset_job_for_retry s i t = (s, None)
         | Some j \<Rightarrow>
             if state j = Dead
             then snd (reset_job_for_retry s i t) =
                    Some (j\<lparr>state := Pending, attempts := 0, next_retry_at := None,
                            error_message := None, updated_at := utc_text t\<rparr>) \<and>
                  get_job (fst (reset_job_for_retry s i t)) i = snd (reset_job_for_retry s i t) \<and>
                  (\<forall>k. k \<noteq> i \<longrightarrow> get_job (fst (reset_job_for_retry s i t)) k = get_job s k)
             else reset_job_for_retry s i t = (s, Some j)"
proof (cases "get_job s i")
  case None
  then have "\<forall>j\<in>set s. \<not> (job_id j = i \<and> state j = Dead)"
    by (simp add: get_job_None)
  from reset_job_unchanged[OF this] None show ?thesis by simp
next
  case (Some j)
  then have mem: "j \<in> set s" and id: "job_id j = i"
    using get_job_Some_mem by blast+
  show ?thesis
  proof (cases "state j = Dead")
    case True
    have 1: "get_job (fst (reset_job_for_retry s i t)) i =
        Some (j\<lparr>state := Pending, attempts := 0, next_retry_at := None,
                error_message := None, updated_at := utc_text t\<rparr>)"
      using Some True id by (simp add: reset_job_get)
    have 2: "\<forall>k. k \<noteq> i \<longrightarrow> get_job (fst (reset_job_for_retry s i t)) k = get_job s k"
    proof (intro allI impI)
      fix k assume ne: "k \<noteq> i"
      show "get_job (fst (reset_job_for_retry s i t)) k = get_job s k"
      proof (cases "get_job s k")
        case None
        then show ?thesis by (simp add: reset_job_get)
      next
        case (Some j')
        then have "job_id j' = k" using get_job_Some_mem by blast
        then show ?thesis using Some ne by (simp add: reset_job_get)
      qed
    qed
    from 1 2 True Some show ?thesis by (simp add: reset_job_snd)
  next
    case False
    have "\<forall>j'\<in>set s. \<not> (job_id j' = i \<and> state j' = Dead)"
    proof
      fix j' assume m: "j' \<in> set s"
      show "\<not> (job_id j' = i \<and> state j' = Dead)"
      proof
        assume a: "job_id j' = i \<and> state j' = Dead"
        then have "j' = j" using distinct_ids_unique[OF assms m mem] id by simp
        with a False show False by simp
      qed
    qed
    from reset_job_unchanged[OF this] False Some show ?thesis by simp
  qed
qed

text \<open>
  C6, as the code has it. \<^verbatim>\<open>reset_job_for_retry\<close> on the id of a \<^verbatim>\<open>dead\<close> job makes it
  \<^verbatim>\<open>pending\<close> with \<^verbatim>\<open>attempts\<close> 0, clears \<^verbatim>\<open>next_retry_at\<close> and \<^verbatim>\<open>error_message\<close>, refreshes
  \<^verbatim>\<open>updated_at\<close>, returns the new row and touches no other job. On a job in any other
  state it changes nothing in the table and returns the job's row as it is; only for
  an id the table does not have it returns the not-found value.
\<close>

theorem reset_job_for_retry_dead_only:
  assumes "distinct (map job_id s)"
  shows "case get_job s i of
           None \<Rightarrow> reset_job_for_retry s i t = (s, None)
         | Some j \<Rightarrow>
             if state j = Dead
             then snd (reset_job_for_retry s i t) =
                    Some (j\<lparr>state := Pending, attempts := 0, next_retry_at := None,
                            error_message := None, updated_at := utc_text t\<rparr>) \<and>
                  get_job (fst (reset_job_for_retry s i t)) i = snd (reset_job_for_retry s i t) \<and>
                  (\<forall>k. k \<noteq> i \<longrightarrow> get_job (fst (reset_job_for_retry s i t)) k = get_job s k)
             else reset_job_for_retry s i t = (s, Some j)"
  using assms by (rule reset_job_cases)

text \<open>
  C6, in the scenario: the dead job is reset at 00:00:10; the same call on the job
  while it is \<^verbatim>\<open>failed\<close> changes nothing and returns its row; an unknown id gives
  \<^verbatim>\<open>None\<close>.
\<close>

theorem reset_job_for_retry_dead_only_witness:
  "distinct (map job_id (stored example_pass2)) \<and>
   snd (reset_job_for_retry (stored example_pass2) ''test4'' (example_time 10000000)) = Some
     \<lparr>job_id = ''test4'', command = ''nonexistentcommand12345'', state = Pending, attempts = 0,
       max_retries = 2, next_retry_at = None,
       created_at = ''2024-01-01T00:00:00.250000Z'',
       updated_at = ''2024-01-01T00:00:10Z'', completed_at = None, error_message = None\<rparr> \<and>
   reset_job_for_retry (stored example_pass1) ''test4'' (example_time 10000000) =
     (stored example_pass1, get_job (stored example_pass1) ''test4'') \<and>
   reset_job_for_retry (stored example_pass2) ''test9'' (example_time 10000000) =
     (stored example_pass2, None)"
proof -
  have d2: "distinct (map job_id (stored example_pass2))" by (simp add: example_pass2_eq)
  have d1: "distinct (map job_id (stored example_pass1))" by (simp add: example_pass1_eq)
  have tx: "utc_text (example_time 10000000) = ''2024-01-01T00:00:10Z''"
    by (simp add: example_time_def utc_text_def isoformat_def ord2ymd_example zfill_eval Let_def)
  show ?thesis
    using d2 reset_job_for_retry_dead_only[OF d2, of "''test4''" "example_time 10000000"]
      reset_job_for_retry_dead_only[OF d1, of "''test4''" "example_time 10000000"]
      reset_job_for_retry_dead_only[OF d2, of "''test9''" "example_time 10000000"]
    by (simp add: example_pass1_eq example_pass2_eq get_job_def tx)
qed

text \<open>
  C6 as the specification states it (a failure signal for a job that is not dead)
  fails on the enqueued, \<^verbatim>\<open>pending\<close> job: the call returns the job's row, which the
  callers read as success.
\<close>

theorem reset_not_dead_returns_job_counterexample:
  "reset_job_for_retry example_enqueued ''test4'' (example_time 10000000) =
     (example_enqueued,
      Some \<lparr>job_id = ''test4'', command = ''nonexistentcommand12345'', state = Pending,
        attempts = 0, max_retries = 2, next_retry_at = None,
        created_at = ''2024-01-01T00:00:00.250000Z'',
        updated_at = ''2024-01-01T00:00:00.250000Z'', completed_at = None,
        error_message = None\<rparr>) \<and>
   snd (reset_job_for_retry example_enqueued ''test4'' (example_time 10000000)) \<noteq> None"
  by (simp add: example_enqueued_eq reset_job_for_retry_def get_job_def Let_def)

section \<open>The time of the last update\<close>

lemma acquire_job_updated_at:
  "map updated_at (fst (acquire_job s i t)) = map updated_at s"
  by (simp add: acquire_job_def Let_def comp_def)

lemma update_job_updated_at:
  "update_job s i u t = Inr (s', r) \<Longrightarrow> j \<in> set s' \<Longrightarrow> job_id j = i \<Longrightarrow>
     updated_at j = utc_text t \<or> (\<exists>j0\<in>set s. job_id j0 \<noteq> i \<and> j = j0)"
  by (auto simp: update_job_def Let_def set_columns_def split: if_splits)

text \<open>
  C7. \<^verbatim>\<open>acquire_job\<close> leaves \<^verbatim>\<open>updated_at\<close> of every row as it was, also of the row it
  moves to \<^verbatim>\<open>processing\<close>: the job enqueued at 00:00:00.25 and acquired at 00:00:00.5001
  is \<^verbatim>\<open>processing\<close> with \<^verbatim>\<open>updated_at\<close> 00:00:00.25. (\<^verbatim>\<open>update_job\<close> and the reset do
  refresh it.)
\<close>

theorem acquire_job_keeps_updated_at:
  "map updated_at (fst (acquire_job s i t)) = map updated_at s \<and>
   acquire_job example_enqueued ''test4'' (example_time 500100) =
     ([\<lparr>job_id = ''test4'', command = ''nonexistentcommand12345'', state = Processing,
        attempts = 0, max_retries = 2, next_retry_at = None,
        created_at = ''2024-01-01T00:00:00.250000Z'',
        updated_at = ''2024-01-01T00:00:00.250000Z'', completed_at = None,
        error_message = None\<rparr>], True) \<and>
   utc_text (example_time 500100) = ''2024-01-01T00:00:00.500100Z''"
  by (simp add: acquire_job_updated_at example_enqueued_eq acquire_job_def acquire_where_def
      ready_where_def example_texts Let_def)

section \<open>The ready jobs\<close>

text \<open>
  What \<^verbatim>\<open>get_pending_jobs\<close> returns for a limit that is not negative, in the order of
  the texts: rows of the table that are \<^verbatim>\<open>pending\<close> or \<^verbatim>\<open>failed\<close> with \<^verbatim>\<open>next_retry_at\<close> null
  or not greater than the text of the clock's reading; sorted by \<^verbatim>\<open>created_at\<close>; as
  many as the limit allows; and no ready row that is left out sorts before a row that
  is returned. This holds for every plan of the store.
\<close>

lemma ready_where_iff:
  "ready_where now j \<longleftrightarrow>
     (state j = Pending \<or> state j = Failed) \<and>
     (next_retry_at j = None \<or> (\<exists>r. next_retry_at j = Some r \<and> r \<le> now))"
  by (auto simp: ready_where_def split: option.splits)

lemma sorted_take_drop:
  "sorted (map f xs) \<Longrightarrow> x \<in> set (take n xs) \<Longrightarrow> y \<in> set (drop n xs) \<Longrightarrow> f x \<le> f y"
proof -
  assume s: "sorted (map f xs)" and x: "x \<in> set (take n xs)" and y: "y \<in> set (drop n xs)"
  have "sorted (map f (take n xs) @ map f (drop n xs))"
    using s by (simp flip: map_append)
  then show ?thesis using x y by (auto simp: sorted_append)
qed

lemma get_pending_jobs_take:
  "0 \<le> limit \<Longrightarrow>
     get_pending_jobs s limit t plan =
       take (nat limit) (sort_key created_at (sort_key plan (filter (ready_where (utc_text t)) s)))"
  by (simp add: get_pending_jobs_def sql_limit_def Let_def)

lemma get_pending_jobs_sorted:
  "0 \<le> limit \<Longrightarrow> sorted (map created_at (get_pending_jobs s limit t plan))"
  by (simp add: get_pending_jobs_take take_map[symmetric] sorted_wrt_take del: take_map)

lemma get_pending_jobs_length:
  "0 \<le> limit \<Longrightarrow>
     length (get_pending_jobs s limit t plan) =
       min (nat limit) (length (filter (ready_where (utc_text t)) s))"
  by (simp add: get_pending_jobs_take min.commute)

lemma get_pending_jobs_oldest:
  assumes "0 \<le> limit" "j \<in> set s" "ready_where (utc_text t) j"
    "j \<notin> set (get_pending_jobs s limit t plan)" "j' \<in> set (get_pending_jobs s limit t plan)"
  shows "created_at j' \<le> created_at j"
proof -
  let ?xs = "sort_key created_at (sort_key plan (filter (ready_where (utc_text t)) s))"
  have "j \<in> set ?xs" using assms(2,3) by simp
  then have "j \<in> set (take (nat limit) ?xs) \<or> j \<in> set (drop (nat limit) ?xs)"
    by (metis append_take_drop_id set_append Un_iff)
  then have a: "j \<in> set (drop (nat limit) ?xs)"
    using assms(1,4) by (simp add: get_pending_jobs_take)
  have b: "j' \<in> set (take (nat limit) ?xs)"
    using assms(1,5) by (simp add: get_pending_jobs_take)
  have c: "sorted (map created_at ?xs)" by simp
  show ?thesis by (rule sorted_take_drop[OF c b a])
qed

lemma get_pending_jobs_all:
  assumes "0 \<le> limit" "length (filter (ready_where (utc_text t)) s) \<le> nat limit"
  shows "set (get_pending_jobs s limit t plan) = {j \<in> set s. ready_where (utc_text t) j}"
  using assms by (simp add: get_pending_jobs_take)

lemma get_pending_jobs_text_order:
  assumes "0 \<le> limit"
  shows "(\<forall>j. j \<in> set (get_pending_jobs s limit t plan) \<longrightarrow>
            j \<in> set s \<and> (state j = Pending \<or> state j = Failed) \<and>
            (next_retry_at j = None \<or> (\<exists>r. next_retry_at j = Some r \<and> r \<le> utc_text t))) \<and>
         sorted (map created_at (get_pending_jobs s limit t plan)) \<and>
         length (get_pending_jobs s limit t plan) =
           min (nat limit)
             (length (filter (\<lambda>j. (state j = Pending \<or> state j = Failed) \<and>
                (next_retry_at j = None \<or> (\<exists>r. next_retry_at j = Some r \<and> r \<le> utc_text t))) s)) \<and>
         (\<forall>j j'. j \<in> set s \<and> (state j = Pending \<or> state j = Failed) \<and>
            (next_retry_at j = None \<or> (\<exists>r. next_retry_at j = Some r \<and> r \<le> utc_text t)) \<and>
            j \<notin> set (get_pending_jobs s limit t plan) \<and> j' \<in> set (get_pending_jobs s limit t plan) \<longrightarrow>
            created_at j' \<le> created_at j) \<and>
         (\<forall>j r. j \<in> set s \<and> state j = Failed \<and> next_retry_at j = Some r \<and> utc_text t < r \<longrightarrow>
            j \<notin> set (get_pending_jobs s limit t plan)) \<and>
         (\<forall>j r. j \<in> set s \<and> state j = Failed \<and> next_retry_at j = Some r \<and> r \<le> utc_text t \<and>
            length s \<le> nat limit \<longrightarrow> j \<in> set (get_pending_jobs s limit t plan))"
proof -
  let ?R = "get_pending_jobs s limit t plan"
  have eq: "(\<lambda>j. (state j = Pending \<or> state j = Failed) \<and>
                (next_retry_at j = None \<or> (\<exists>r. next_retry_at j = Some r \<and> r \<le> utc_text t)))
            = ready_where (utc_text t)"
    by (rule ext) (simp add: ready_where_iff)
  have 1: "\<forall>j. j \<in> set ?R \<longrightarrow>
            j \<in> set s \<and> (state j = Pending \<or> state j = Failed) \<and>
            (next_retry_at j = None \<or> (\<exists>r. next_retry_at j = Some r \<and> r \<le> utc_text t))"
    using get_pending_jobs_ready[of _ s limit t plan] by (auto simp: ready_where_iff)
  have 2: "sorted (map created_at ?R)" using assms by (rule get_pending_jobs_sorted)
  have 3: "length ?R = min (nat limit)
             (length (filter (\<lambda>j. (state j = Pending \<or> state j = Failed) \<and>
                (next_retry_at j = None \<or> (\<exists>r. next_retry_at j = Some r \<and> r \<le> utc_text t))) s))"
    unfolding eq using assms by (rule get_pending_jobs_length)
  have 4: "\<forall>j j'. j \<in> set s \<and> (state j = Pending \<or> state j = Failed) \<and>
            (next_retry_at j = None \<or> (\<exists>r. next_retry_at j = Some r \<and> r \<le> utc_text t)) \<and>
            j \<notin> set ?R \<and> j' \<in> set ?R \<longrightarrow> created_at j' \<le> created_at j"
    using get_pending_jobs_oldest[OF assms, of _ s t plan] by (auto simp: ready_where_iff)
  have 5: "\<forall>j r. j \<in> set s \<and> state j = Failed \<and> next_retry_at j = Some r \<and> utc_text t < r \<longrightarrow>
            j \<notin> set ?R"
    using 1 by fastforce
  have 6: "\<forall>j r. j \<in> set s \<and> state j = Failed \<and> next_retry_at j = Some r \<and> r \<le> utc_text t \<and>
            length s \<le> nat limit \<longrightarrow> j \<in> set ?R"
  proof (intro allI impI)
    fix j r
    assume a: "j \<in> set s \<and> state j = Failed \<and> next_retry_at j = Some r \<and> r \<le> utc_text t \<and>
            length s \<le> nat limit"
    have "length (filter (ready_where (utc_text t)) s) \<le> length s" by simp
    then have "length (filter (ready_where (utc_text t)) s) \<le> nat limit" using a by linarith
    from get_pending_jobs_all[OF assms this] a show "j \<in> set ?R"
      by (simp add: ready_where_iff)
  qed
  from 1 2 3 4 5 6 show ?thesis by blast
qed

lemma example_two_enqueued_eq:
  "example_two_enqueued =
     [\<lparr>job_id = ''a'', command = ''echo a'', state = Pending, attempts = 0,
       max_retries = 3, next_retry_at = None, created_at = ''2024-01-01T00:00:01Z'',
       updated_at = ''2024-01-01T00:00:01Z'', completed_at = None, error_message = None\<rparr>,
      \<lparr>job_id = ''b'', command = ''echo b'', state = Pending, attempts = 0,
       max_retries = 3, next_retry_at = None, created_at = ''2024-01-01T00:00:01.500000Z'',
       updated_at = ''2024-01-01T00:00:01.500000Z'', completed_at = None, error_message = None\<rparr>]"
  by (simp add: example_two_enqueued_def create_job_def example_texts Let_def)

text \<open>
  C8. \<^verbatim>\<open>get_pending_jobs\<close> compares and sorts the timestamps as texts, and the text of an
  instant with a zero microsecond field has no fraction and sorts after the texts of
  the later instants of its second. So the failed job with retry time 00:00:02.7 is
  returned at 00:00:02, while its retry time is in the future; the failed job with
  retry time 00:00:03 is not returned at 00:00:03.5, after the clock has passed it;
  and of two ready jobs enqueued at 00:00:01 and at 00:00:01.5 the younger comes
  first.
\<close>

theorem get_pending_jobs_compares_text:
  "map next_retry_at (stored example_pass1) = [Some (utc_text (example_time 2700000))] \<and>
   example_time 2000000 < example_time 2700000 \<and>
   get_pending_jobs (stored example_pass1) 1 (example_time 2000000) table_order =
     stored example_pass1 \<and>
   stored example_pass1 \<noteq> [] \<and>
   map next_retry_at (stored example_pass_whole_second) = [Some (utc_text (example_time 3000000))] \<and>
   example_time 3000000 < example_time 3500000 \<and>
   get_pending_jobs (stored example_pass_whole_second) 1 (example_time 3500000) table_order = [] \<and>
   map (\<lambda>j. (job_id j, created_at j)) example_two_enqueued =
     [(''a'', utc_text (example_time 1000000)), (''b'', utc_text (example_time 1500000))] \<and>
   example_time 1000000 < example_time 1500000 \<and>
   map job_id (get_pending_jobs example_two_enqueued 2 (example_time 2500000) table_order) =
     [''b'', ''a'']"
  by (simp add: example_pass1_eq example_pass_whole_second_eq example_two_enqueued_eq
      example_texts get_pending_jobs_def table_order_def sql_limit_def ready_where_def Let_def)
     (simp add: example_time_def)

section \<open>The backoff\<close>

lemma timedelta_in_range:
  assumes "- 315537897599 \<le> n" "n \<le> (315537897599::int)"
  shows "\<not> \<bar>n div 86400\<bar> > 999999999"
proof -
  have "n div 86400 \<le> 315537897599 div 86400" using assms(2) by (intro zdiv_mono1) simp_all
  moreover have "(- 315537897599) div 86400 \<le> n div 86400"
    using assms(1) by (intro zdiv_mono1) simp_all
  ultimately show ?thesis by simp
qed

lemma calculate_next_retry_eq:
  assumes "t \<le> MAX_DATETIME"
  shows "calculate_next_retry self bb t =
           (if 0 \<le> int t + bb ^ attempts self * 1000000 \<and>
               int t + bb ^ attempts self * 1000000 \<le> int MAX_DATETIME
            then Inr (utc_text (nat (int t + bb ^ attempts self * 1000000)))
            else Inl OverflowError)"
proof (cases "0 \<le> int t + bb ^ attempts self * 1000000 \<and>
               int t + bb ^ attempts self * 1000000 \<le> int MAX_DATETIME")
  case True
  have "int t \<le> 315537897599999999" using assms by (simp add: MAX_DATETIME_def)
  then have "- 315537897599999999 \<le> bb ^ attempts self * 1000000"
    and "bb ^ attempts self * 1000000 \<le> 315537897599999999"
    using True by (simp_all add: MAX_DATETIME_def)
  then have "- 315537897599 \<le> bb ^ attempts self" "bb ^ attempts self \<le> 315537897599"
    by linarith+
  from timedelta_in_range[OF this] True show ?thesis
    by (simp add: calculate_next_retry_def timedelta_seconds_def datetime_add_def utc_text_def Let_def)
next
  case False
  then show ?thesis
    by (auto simp: calculate_next_retry_def timedelta_seconds_def datetime_add_def Let_def
        split: sum.splits)
qed

lemma mark_for_retry_eq:
  assumes "t \<le> MAX_DATETIME" "int (attempts self) + 1 < max_retries self"
  shows "mark_for_retry self bb t =
           (if 0 \<le> int t + bb ^ (attempts self + 1) * 1000000 \<and>
               int t + bb ^ (attempts self + 1) * 1000000 \<le> int MAX_DATETIME
            then Inr (self\<lparr>attempts := attempts self + 1, state := Failed,
                   next_retry_at :=
                     Some (utc_text (nat (int t + bb ^ (attempts self + 1) * 1000000)))\<rparr>)
            else Inl OverflowError)"
  using calculate_next_retry_eq[OF assms(1), of "self\<lparr>attempts := attempts self + 1\<rparr>" bb] assms(2)
  by (simp add: mark_for_retry_def should_retry_def Let_def)

text \<open>
  C9, as the code has it. The reading of the clock is a \<^verbatim>\<open>datetime\<close> and the base an
  integer. \<^verbatim>\<open>calculate_next_retry\<close> returns the text of the instant that is the base to
  the power of \<^verbatim>\<open>attempts\<close> seconds after the reading, with no cap and no jitter,
  whenever a \<^verbatim>\<open>datetime\<close> can hold that instant (years 1 to 9999), and raises
  \<^verbatim>\<open>OverflowError\<close> otherwise. \<^verbatim>\<open>mark_for_retry\<close> calls it after the increment of
  \<^verbatim>\<open>attempts\<close>, when a retry is due; so with base 2 the first, second and third failure
  set \<^verbatim>\<open>next_retry_at\<close> 2, 4 and 8 seconds after the reading.
\<close>

theorem backoff_is_base_to_the_attempts:
  assumes "t \<le> MAX_DATETIME"
  shows "calculate_next_retry self bb t =
           (if 0 \<le> int t + bb ^ attempts self * 1000000 \<and>
               int t + bb ^ attempts self * 1000000 \<le> int MAX_DATETIME
            then Inr (utc_text (nat (int t + bb ^ attempts self * 1000000)))
            else Inl OverflowError) \<and>
         (int (attempts self) + 1 < max_retries self \<longrightarrow>
            mark_for_retry self bb t =
              (if 0 \<le> int t + bb ^ (attempts self + 1) * 1000000 \<and>
                  int t + bb ^ (attempts self + 1) * 1000000 \<le> int MAX_DATETIME
               then Inr (self\<lparr>attempts := attempts self + 1, state := Failed,
                      next_retry_at :=
                        Some (utc_text (nat (int t + bb ^ (attempts self + 1) * 1000000)))\<rparr>)
               else Inl OverflowError)) \<and>
         (attempts self = 0 \<and> 1 < max_retries self \<and> t + 2000000 \<le> MAX_DATETIME \<longrightarrow>
            mark_for_retry self 2 t =
              Inr (self\<lparr>attempts := 1, state := Failed,
                     next_retry_at := Some (utc_text (t + 2000000))\<rparr>)) \<and>
         (attempts self = 1 \<and> 2 < max_retries self \<and> t + 4000000 \<le> MAX_DATETIME \<longrightarrow>
            mark_for_retry self 2 t =
              Inr (self\<lparr>attempts := 2, state := Failed,
                     next_retry_at := Some (utc_text (t + 4000000))\<rparr>)) \<and>
         (attempts self = 2 \<and> 3 < max_retries self \<and> t + 8000000 \<le> MAX_DATETIME \<longrightarrow>
            mark_for_retry self 2 t =
              Inr (self\<lparr>attempts := 3, state := Failed,
                     next_retry_at := Some (utc_text (t + 8000000))\<rparr>))"
proof (intro conjI impI)
  show "calculate_next_retry self bb t =
           (if 0 \<le> int t + bb ^ attempts self * 1000000 \<and>
               int t + bb ^ attempts self * 1000000 \<le> int MAX_DATETIME
            then Inr (utc_text (nat (int t + bb ^ attempts self * 1000000)))
            else Inl OverflowError)"
    using assms by (rule calculate_next_retry_eq)
next
  assume "int (attempts self) + 1 < max_retries self"
  then show "mark_for_retry self bb t =
              (if 0 \<le> int t + bb ^ (attempts self + 1) * 1000000 \<and>
                  int t + bb ^ (attempts self + 1) * 1000000 \<le> int MAX_DATETIME
               then Inr (self\<lparr>attempts := attempts self + 1, state := Failed,
                      next_retry_at :=
                        Some (utc_text (nat (int t + bb ^ (attempts self + 1) * 1000000)))\<rparr>)
               else Inl OverflowError)"
    using assms by (intro mark_for_retry_eq)
next
  assume a: "attempts self = 0 \<and> 1 < max_retries self \<and> t + 2000000 \<le> MAX_DATETIME"
  have "nat (int t + 2000000) = t + 2000000" by simp
  then show "mark_for_retry self 2 t =
              Inr (self\<lparr>attempts := 1, state := Failed,
                     next_retry_at := Some (utc_text (t + 2000000))\<rparr>)"
    using mark_for_retry_eq[OF assms, of self 2] a by simp
next
  assume a: "attempts self = 1 \<and> 2 < max_retries self \<and> t + 4000000 \<le> MAX_DATETIME"
  have "nat (int t + 4000000) = t + 4000000" by simp
  then show "mark_for_retry self 2 t =
              Inr (self\<lparr>attempts := 2, state := Failed,
                     next_retry_at := Some (utc_text (t + 4000000))\<rparr>)"
    using mark_for_retry_eq[OF assms, of self 2] a by simp
next
  assume a: "attempts self = 2 \<and> 3 < max_retries self \<and> t + 8000000 \<le> MAX_DATETIME"
  have "nat (int t + 8000000) = t + 8000000" by simp
  then show "mark_for_retry self 2 t =
              Inr (self\<lparr>attempts := 3, state := Failed,
                     next_retry_at := Some (utc_text (t + 8000000))\<rparr>)"
    using mark_for_retry_eq[OF assms, of self 2] a by simp
qed

text \<open>
  C9, at 00:00:01: the first three failures of a job with \<^verbatim>\<open>max_retries\<close> 5 schedule the
  retry for 00:00:03, 00:00:05 and 00:00:09, and with base 10 and three attempts the
  retry is 1000 seconds later, at 00:16:41.
\<close>

theorem backoff_is_base_to_the_attempts_witness:
  "example_time 1000000 \<le> MAX_DATETIME \<and>
   map_sum id next_retry_at (mark_for_retry (example_job 0) 2 (example_time 1000000)) =
     Inr (Some ''2024-01-01T00:00:03Z'') \<and>
   map_sum id next_retry_at (mark_for_retry (example_job 1) 2 (example_time 1000000)) =
     Inr (Some ''2024-01-01T00:00:05Z'') \<and>
   map_sum id next_retry_at (mark_for_retry (example_job 2) 2 (example_time 1000000)) =
     Inr (Some ''2024-01-01T00:00:09Z'') \<and>
   calculate_next_retry (example_job 3) 10 (example_time 1000000) = Inr ''2024-01-01T00:16:41Z''"
proof -
  have r: "example_time 1000000 \<le> MAX_DATETIME"
    by (simp add: example_time_def MAX_DATETIME_def)
  have tx: "utc_text (example_time 1000000 + 2000000) = ''2024-01-01T00:00:03Z''"
    "utc_text (example_time 1000000 + 4000000) = ''2024-01-01T00:00:05Z''"
    "utc_text (example_time 1000000 + 8000000) = ''2024-01-01T00:00:09Z''"
    "utc_text (nat (int (example_time 1000000) + 1000000000)) = ''2024-01-01T00:16:41Z''"
    by (simp_all add: example_time_def utc_text_def isoformat_def ord2ymd_example zfill_eval Let_def)
  have inr: "(0::int) \<le> int (example_time 1000000) + 10 ^ 3 * 1000000 \<and>
     int (example_time 1000000) + 10 ^ 3 * 1000000 \<le> int MAX_DATETIME"
    by (simp add: example_time_def MAX_DATETIME_def)
  have 1: "mark_for_retry (example_job 0) 2 (example_time 1000000) =
      Inr ((example_job 0)\<lparr>attempts := 1, state := Failed,
             next_retry_at := Some (utc_text (example_time 1000000 + 2000000))\<rparr>)"
    using backoff_is_base_to_the_attempts[OF r, of "example_job 0" 2]
    by (simp add: example_job_def) (simp add: example_time_def MAX_DATETIME_def)
  have 2: "mark_for_retry (example_job 1) 2 (example_time 1000000) =
      Inr ((example_job 1)\<lparr>attempts := 2, state := Failed,
             next_retry_at := Some (utc_text (example_time 1000000 + 4000000))\<rparr>)"
    using backoff_is_base_to_the_attempts[OF r, of "example_job 1" 2]
    by (simp add: example_job_def) (simp add: example_time_def MAX_DATETIME_def)
  have 3: "mark_for_retry (example_job 2) 2 (example_time 1000000) =
      Inr ((example_job 2)\<lparr>attempts := 3, state := Failed,
             next_retry_at := Some (utc_text (example_time 1000000 + 8000000))\<rparr>)"
    using backoff_is_base_to_the_attempts[OF r, of "example_job 2" 2]
    by (simp add: example_job_def) (simp add: example_time_def MAX_DATETIME_def)
  have 4: "calculate_next_retry (example_job 3) 10 (example_time 1000000) =
      Inr (utc_text (nat (int (example_time 1000000) + 1000000000)))"
    using backoff_is_base_to_the_attempts[OF r, of "example_job 3" 10] inr
    by (simp add: example_job_def)
  show ?thesis
    using r 1 2 3 4 by (simp add: tx)
qed

text \<open>
  C9 as the specification states it (for every attempt count, no maximum delay)
  fails for \<^verbatim>\<open>backoff_base\<close> 1000000 at the second failure: the instant 10^12 seconds
  later is past year 9999, the computation raises and no \<^verbatim>\<open>next_retry_at\<close> is set.
\<close>

theorem backoff_unbounded_counterexample:
  "example_time 1000000 \<le> MAX_DATETIME \<and>
   calculate_next_retry (example_job 2) 1000000 (example_time 1000000) = Inl OverflowError \<and>
   mark_for_retry (example_job 1) 1000000 (example_time 1000000) = Inl OverflowError"
  by (simp add: example_job_def calculate_next_retry_def mark_for_retry_def should_retry_def
      timedelta_seconds_def datetime_add_def MAX_DATETIME_def example_time_def Let_def)

section \<open>Execution without a timeout\<close>

lemma execute_None_not_timeout: "execute j b None \<noteq> Some (Execution_timeout m)"
  by (cases b) (auto simp: execute_def split: if_splits)

text \<open>
  C10. The loop calls \<^verbatim>\<open>execute\<close> with no timeout. Such a call never returns through
  the timeout branch, and on a command that never ends it does not return at all,
  while with a timeout that is not zero the same command gives the timeout error.
  So a pass that has acquired job \<open>j\<close> either writes an outcome that is not a timeout
  or, when the command never ends, never returns and leaves the job \<^verbatim>\<open>processing\<close>; and
  in the interleaved system a worker running such a command is still running it
  after any number of its steps.
\<close>

theorem worker_executes_without_timeout:
  "execute j b None \<noteq> Some (Execution_timeout m) \<and>
   execute j Runs_forever None = None \<and>
   (t \<noteq> 0 \<longrightarrow> execute j Runs_forever (Some t) =
      Some (Execution_timeout (''Command timed out after '' @ str_int t @ '' seconds''))) \<and>
   (get_pending_jobs s 1 tp plan = j # rest \<and> snd (acquire_job s (job_id j) ta) \<longrightarrow>
      (case execute j b None of
         None \<Rightarrow> worker_iteration s b bb tp ta tm tu plan =
                   Never_returns (fst (acquire_job s (job_id j) ta))
       | Some out \<Rightarrow> worker_iteration s b bb tp ta tm tu plan =
                       record_outcome (fst (acquire_job s (job_id j) ta)) j out bb tm tu \<and>
                     (\<forall>m'. out \<noteq> Execution_timeout m')) \<and>
      worker_iteration s Runs_forever bb tp ta tm tu plan =
        Never_returns (fst (acquire_job s (job_id j) ta))) \<and>
   (workers sys w = Running j \<longrightarrow>
      run_actions (replicate n (Finish w Runs_forever bb tm tu)) sys = sys)"
proof (intro conjI impI)
  show "execute j b None \<noteq> Some (Execution_timeout m)" by (rule execute_None_not_timeout)
  show rf: "execute j Runs_forever None = None" by (simp add: execute_def)
  show "execute j Runs_forever (Some t) =
      Some (Execution_timeout (''Command timed out after '' @ str_int t @ '' seconds''))"
    if "t \<noteq> 0" using that by (simp add: execute_def str_timeout_def)
  show "run_actions (replicate n (Finish w Runs_forever bb tm tu)) sys = sys"
    if "workers sys w = Running j"
    using that rf by (induction n) simp_all
next
  assume a: "get_pending_jobs s 1 tp plan = j # rest \<and> snd (acquire_job s (job_id j) ta)"
  obtain s1 where s1: "acquire_job s (job_id j) ta = (s1, True)"
    using a by (cases "acquire_job s (job_id j) ta") auto
  show "case execute j b None of
         None \<Rightarrow> worker_iteration s b bb tp ta tm tu plan =
                   Never_returns (fst (acquire_job s (job_id j) ta))
       | Some out \<Rightarrow> worker_iteration s b bb tp ta tm tu plan =
                       record_outcome (fst (acquire_job s (job_id j) ta)) j out bb tm tu \<and>
                     (\<forall>m'. out \<noteq> Execution_timeout m')"
    using a s1 execute_None_not_timeout[of j b]
    by (auto simp: worker_iteration_def split: option.splits)
  show "worker_iteration s Runs_forever bb tp ta tm tu plan =
        Never_returns (fst (acquire_job s (job_id j) ta))"
    using a s1 by (simp add: worker_iteration_def execute_def)
qed

text \<open>
  C10, with the job \<^verbatim>\<open>t1\<close>: when its command never ends the pass does not return and
  the job stays \<^verbatim>\<open>processing\<close>; a command that ends after 45 seconds succeeds without
  a timeout and times out with a timeout of 30 seconds.
\<close>

theorem worker_executes_without_timeout_witness:
  "worker_iteration example_echo_enqueued Runs_forever 2 (example_time 500000)
     (example_time 500100) (example_time 700000) (example_time 700100) table_order =
   Never_returns
     [\<lparr>job_id = ''t1'', command = ''echo hi'', state = Processing, attempts = 0,
       max_retries = 3, next_retry_at = None, created_at = ''2024-01-01T00:00:00.250000Z'',
       updated_at = ''2024-01-01T00:00:00.250000Z'', completed_at = None, error_message = None\<rparr>] \<and>
   execute (example_job 0) Runs_forever (Some 30) =
     Some (Execution_timeout ''Command timed out after 30 seconds'') \<and>
   execute (example_job 0) (Exits 45 0 [] []) (Some 30) =
     Some (Execution_timeout ''Command timed out after 30 seconds'') \<and>
   execute (example_job 0) (Exits 45 0 [] []) None = Some Succeeded"
proof -
  let ?j0 = "\<lparr>job_id = ''t1'', command = ''echo hi'', state = Pending, attempts = 0,
       max_retries = 3, next_retry_at = None, created_at = ''2024-01-01T00:00:00.250000Z'',
       updated_at = ''2024-01-01T00:00:00.250000Z'', completed_at = None, error_message = None\<rparr>"
  have p: "get_pending_jobs example_echo_enqueued 1 (example_time 500000) table_order = ?j0 # []"
    by (simp add: example_echo_enqueued_eq get_pending_jobs_def table_order_def sql_limit_def
        ready_where_def Let_def)
  have a: "snd (acquire_job example_echo_enqueued (job_id ?j0) (example_time 500100))"
    by (simp add: example_echo_enqueued_eq acquire_job_def acquire_where_def ready_where_def Let_def)
  have s1: "fst (acquire_job example_echo_enqueued ''t1'' (example_time 500100)) =
      [?j0\<lparr>state := Processing\<rparr>]"
    by (simp add: example_echo_enqueued_eq acquire_job_def acquire_where_def ready_where_def Let_def)
  have str: "str_int 30 = ''30''"
    by (simp add: str_int_def dec.simps digit_def)
  have 1: "worker_iteration example_echo_enqueued Runs_forever 2 (example_time 500000)
     (example_time 500100) (example_time 700000) (example_time 700100) table_order =
     Never_returns [?j0\<lparr>state := Processing\<rparr>]"
    using worker_executes_without_timeout[where s = example_echo_enqueued and j = ?j0
        and tp = "example_time 500000" and ta = "example_time 500100" and plan = table_order
        and rest = "[]" and bb = 2 and tm = "example_time 700000" and tu = "example_time 700100"]
      p a s1 by simp
  have 2: "execute (example_job 0) Runs_forever (Some 30) =
     Some (Execution_timeout ''Command timed out after 30 seconds'')"
    using worker_executes_without_timeout[where j = "example_job 0" and t = 30] str by simp
  have 3: "execute (example_job 0) (Exits 45 0 [] []) (Some 30) =
     Some (Execution_timeout ''Command timed out after 30 seconds'')"
    "execute (example_job 0) (Exits 45 0 [] []) None = Some Succeeded"
    by (simp_all add: execute_def str_timeout_def str)
  from 1 2 3 show ?thesis by simp
qed


end
